theory Spec2Isabelle
  imports Main "HOL-Library.Word"
begin

unbundle bit_operations_syntax

section \<open>Tokens\<close>

text \<open>
  Modelled from the spec: the token package (\<open>lang/token\<close>) is not among the sources.
  The spec describes an \<open>ID\<close> as an interned identifier that carries category flags
  and a key, the canonical small form used in switch dispatch.  The keys are the named
  built-in keys that \<open>lang/check/type.go\<close> refers to; every other key (an identifier or
  literal interned by the token map) is \<open>KeyOther k\<close>.  \<open>KeyInvalid\<close> is the key
  that the source writes as the literal \<open>0\<close>.
\<close>

datatype Key =
    KeyInvalid
  | KeyOpenParen | KeyOpenBracket | KeyColon | KeyDot
  | KeyEq | KeyShiftLEq | KeyShiftREq
  | KeyFalse | KeyTrue | KeyUnderscore | KeyThis
  | KeyIn | KeyOut | KeyBuf1 | KeyBool | KeyPtr | KeyU8 | KeyIdeal
  | KeyBreak | KeyContinue | KeyReadU8 | KeyLowBits
  | KeyXUnaryPlus | KeyXUnaryMinus | KeyXUnaryNot
  | KeyXBinaryPlus | KeyXBinaryMinus | KeyXBinaryStar | KeyXBinarySlash
  | KeyXBinaryShiftL | KeyXBinaryShiftR
  | KeyXBinaryAmp | KeyXBinaryAmpHat | KeyXBinaryPipe | KeyXBinaryHat
  | KeyXBinaryNotEq | KeyXBinaryLessThan | KeyXBinaryLessEq
  | KeyXBinaryEqEq | KeyXBinaryGreaterEq | KeyXBinaryGreaterThan
  | KeyXBinaryAnd | KeyXBinaryOr | KeyXBinaryAs
  | KeyOther nat

datatype Flag =
    FlagsUnaryOp | FlagsBinaryOp | FlagsAssociativeOp
  | FlagsNumLiteral | FlagsIdent | FlagsNumType

datatype ID = ID (Key: Key) (Flags: "Flag set")

text \<open>The \<open>ID\<close> that the source writes as the literal \<open>0\<close>.\<close>

definition ID_zero :: ID where
  "ID_zero = ID KeyInvalid {}"

definition IsNumLiteral :: "ID \<Rightarrow> bool" where
  "IsNumLiteral x = (FlagsNumLiteral \<in> Flags x)"

definition IsIdent :: "ID \<Rightarrow> bool" where
  "IsIdent x = (FlagsIdent \<in> Flags x)"

definition ID_IsNumType :: "ID \<Rightarrow> bool" where
  "ID_IsNumType x = (FlagsNumType \<in> Flags x)"

text \<open>
  Modelled from the spec: the token map is the interner of the source lexemes.  It is an
  association list from lexeme to \<open>ID\<close>; \<open>ByName\<close> looks a lexeme up (the zero
  \<open>ID\<close> when it is absent) and \<open>String\<close> gives the lexeme of an \<open>ID\<close> (the empty
  string when it has none).
\<close>

type_synonym Map = "(string \<times> ID) list"

definition ByName :: "Map \<Rightarrow> string \<Rightarrow> ID" where
  "ByName tm name = (case map_of tm name of None \<Rightarrow> ID_zero | Some x \<Rightarrow> x)"

definition String :: "ID \<Rightarrow> Map \<Rightarrow> string" where
  "String x tm = (case find (\<lambda>p. snd p = x) tm of None \<Rightarrow> [] | Some p \<Rightarrow> fst p)"

section \<open>The AST (\<open>lang/ast/ast.go\<close>)\<close>

datatype Kind =
    KInvalid
  | KArg | KAssert | KAssign | KExpr | KField | KFile | KFunc | KIf
  | KJump | KReturn | KStruct | KTypeExpr | KUse | KVar | KWhile

type_synonym Flags = "32 word"

definition FlagsImpure :: Flags where "FlagsImpure = 0x00000001"
definition FlagsSuspendible :: Flags where "FlagsSuspendible = 0x00000002"
definition FlagsPublic :: Flags where "FlagsPublic = 0x00000004"
definition FlagsTypeChecked :: Flags where "FlagsTypeChecked = 0x00000008"

text \<open>
  A \<open>*Node\<close> of the source is a pointer to a mutable struct.  The checker never changes
  the shape of the tree (kind, location, the two IDs, the three child slots and the two
  child lists), so the shape is a datatype value that carries the address of the struct
  it stands for, a child slot that holds \<open>nil\<close> is \<open>None\<close>, and the fields that the
  checker writes live in a store indexed by address (\<open>annot\<close> below).  Two pointers are
  the same pointer when their addresses are equal.  The elements of a child list are
  never \<open>nil\<close>.
\<close>

type_synonym addr = nat

datatype Node = Node
  (addr: addr)
  (kind: Kind)
  (filename: string)
  (line: "32 word")
  (id0: ID)
  (id1: ID)
  (lhs: "Node option")
  (mhs: "Node option")
  (rhs: "Node option")
  (list0: "Node list")
  (list1: "Node list")

text \<open>
  The mutable fields of a node: \<open>flags\<close>, \<open>constValue\<close> and \<open>mType\<close> of
  \<open>ast.go\<close>.  Modelled from the spec: \<open>hasBreak\<close>, \<open>hasContinue\<close> (the
  \<open>has_break\<close> and \<open>has_continue\<close> bits of a \<open>While\<close>) and \<open>jumpTarget\<close> (the
  back-reference of a \<open>Jump\<close>); \<open>type.go\<close> sets them through \<open>SetHasBreak\<close>,
  \<open>SetHasContinue\<close> and \<open>SetJumpTarget\<close>, which \<open>ast.go\<close> does not have.
\<close>

record annot =
  flags :: Flags
  constValue :: "int option"
  mType :: "Node option"
  hasBreak :: bool
  hasContinue :: bool
  jumpTarget :: "Node option"

type_synonym store = "addr \<Rightarrow> annot"

definition MaxExprDepth :: "32 word" where "MaxExprDepth = 255"
definition MaxTypeExprDepth :: "32 word" where "MaxTypeExprDepth = 63"
definition MaxBodyDepth :: "32 word" where "MaxBodyDepth = 255"

definition ptrEq :: "Node option \<Rightarrow> Node option \<Rightarrow> bool" where
  "ptrEq n o' = (case (n, o') of
      (None, None) \<Rightarrow> True
    | (Some a, Some b) \<Rightarrow> addr a = addr b
    | _ \<Rightarrow> False)"

text \<open>\<open>func (n *TypeExpr) IsNumType() bool\<close>\<close>

definition IsNumType :: "Node \<Rightarrow> bool" where
  "IsNumType n = (id0 n = ID_zero \<and> ID_IsNumType (id1 n))"

section \<open>The checker's state\<close>

text \<open>
  The errors of \<open>type.go\<close>, one constructor per kind of message, named after the
  spec's error taxonomy; \<open>Panic\<close> is a run-time panic of Go (a nil dereference, a write
  to a nil map, a slice bound out of range), which unwinds like an error return.
\<close>

datatype error =
    DuplicateVar
  | NotBoolean
  | NoJumpTarget
  | InternalUncheckedTypeExpr
  | UnrecognizedKind
  | NotAssignable
  | NonNumeric
  | IncompatibleTypes
  | TooDeep
  | UnrecognizedKey
  | InvalidNumericLiteral
  | UnknownIdent
  | UnsupportedDecoratorForDot
  | NoStructType
  | NoSuchField
  | CannotConvert
  | DivByZero
  | ShiftOutOfRange
  | NotConstant
  | NotAType
  | Panic

text \<open>Go's \<open>error\<close> result: \<open>OK\<close> is \<open>nil\<close>.\<close>

datatype result = OK | Err error

text \<open>
  \<open>type checker struct\<close> is declared outside \<open>type.go\<close>; its fields are the ones
  that \<open>type.go\<close> uses: \<open>q.tm\<close>, \<open>q.c.structs\<close>, \<open>q.f.Func\<close>, \<open>q.f.LocalVars\<close>
  (a Go map, which may be \<open>nil\<close>, whose values are pointers, which may be \<open>nil\<close>),
  \<open>q.jumpTargets\<close>, \<open>q.errFilename\<close>, \<open>q.errLine\<close>.  \<open>heap\<close> is the store of
  the nodes' mutable fields.
\<close>

record checker =
  tm :: Map
  structs :: "ID \<rightharpoonup> Node"
  fFunc :: "Node option"
  LocalVars :: "(ID \<rightharpoonup> Node option) option"
  jumpTargets :: "Node list"
  errFilename :: string
  errLine :: "32 word"
  heap :: store

definition TypeChecked :: "Node \<Rightarrow> checker \<Rightarrow> bool" where
  "TypeChecked n q = (flags (heap q (addr n)) AND FlagsTypeChecked \<noteq> 0)"

definition SetTypeChecked :: "Node \<Rightarrow> checker \<Rightarrow> checker" where
  "SetTypeChecked n q =
     q\<lparr>heap := (heap q)(addr n :=
         (heap q (addr n))\<lparr>flags := flags (heap q (addr n)) OR FlagsTypeChecked\<rparr>)\<rparr>"

definition ConstValue :: "Node \<Rightarrow> checker \<Rightarrow> int option" where
  "ConstValue n q = constValue (heap q (addr n))"

definition MType :: "Node \<Rightarrow> checker \<Rightarrow> Node option" where
  "MType n q = mType (heap q (addr n))"

definition SetConstValue :: "Node \<Rightarrow> int option \<Rightarrow> checker \<Rightarrow> checker" where
  "SetConstValue n x q =
     q\<lparr>heap := (heap q)(addr n := (heap q (addr n))\<lparr>constValue := x\<rparr>)\<rparr>"

definition SetMType :: "Node \<Rightarrow> Node option \<Rightarrow> checker \<Rightarrow> checker" where
  "SetMType n x q =
     q\<lparr>heap := (heap q)(addr n := (heap q (addr n))\<lparr>mType := x\<rparr>)\<rparr>"

section \<open>Arbitrary-precision integers (\<open>math/big\<close>)\<close>

text \<open>
  A \<open>*big.Int\<close> is an \<open>int\<close>.  \<open>Add\<close>, \<open>Sub\<close>, \<open>Mul\<close> and \<open>Cmp\<close> are the
  operations of \<open>int\<close>; \<open>And\<close>, \<open>Or\<close>, \<open>Xor\<close> and \<open>AndNot\<close> work on the
  two's complement representation, as the bit operations of \<open>int\<close> do.

  \<open>QuoRem\<close> is Go's truncated division.  \<open>Div\<close> calls \<open>QuoRem\<close> and, when the
  remainder is negative, moves the quotient one step away from zero, as its
  implementation in the Go library does.
\<close>

definition big_Quo :: "int \<Rightarrow> int \<Rightarrow> int" where
  "big_Quo x y = sgn x * sgn y * (\<bar>x\<bar> div \<bar>y\<bar>)"

definition big_Rem :: "int \<Rightarrow> int \<Rightarrow> int" where
  "big_Rem x y = sgn x * (\<bar>x\<bar> mod \<bar>y\<bar>)"

definition big_Div :: "int \<Rightarrow> int \<Rightarrow> int" where
  "big_Div x y =
     (let q = big_Quo x y; r = big_Rem x y
      in if r < 0 then (if y < 0 then q + 1 else q - 1) else q)"

text \<open>
  \<open>Uint64\<close> gives the low 64 bits of the magnitude; \<open>Lsh\<close> and \<open>Rsh\<close> shift by an
  unsigned count, \<open>Rsh\<close> arithmetically.
\<close>

definition big_Uint64 :: "int \<Rightarrow> nat" where
  "big_Uint64 x = nat \<bar>x\<bar> mod 2 ^ 64"

definition big_Lsh :: "int \<Rightarrow> nat \<Rightarrow> int" where
  "big_Lsh x n = push_bit n x"

definition big_Rsh :: "int \<Rightarrow> nat \<Rightarrow> int" where
  "big_Rsh x n = drop_bit n x"

text \<open>
  Modelled from the spec: the constants \<open>zero\<close>, \<open>one\<close> and \<open>ffff\<close> and the helpers
  \<open>btoi\<close> and \<open>neg\<close> of package \<open>check\<close> are declared outside \<open>type.go\<close>
  (booleans fold to 0/1; the shift count must be in \<open>[0, 0xFFFF]\<close>; unary minus
  negates).
\<close>

definition zero :: int where "zero = 0"
definition one :: int where "one = 1"
definition ffff :: int where "ffff = 0xFFFF"

definition btoi :: "bool \<Rightarrow> int" where
  "btoi b = (if b then one else zero)"

definition neg :: "int \<Rightarrow> int" where
  "neg i = - i"

section \<open>Constant folding of binary operators\<close>

definition setConstValueBinaryOp :: "Node \<Rightarrow> int \<Rightarrow> int \<Rightarrow> checker \<Rightarrow> result \<times> checker" where
  "setConstValueBinaryOp n l r q =
    (let k = Key (id0 n) in
     if k = KeyXBinaryPlus then (OK, SetConstValue n (Some (l + r)) q)
     else if k = KeyXBinaryMinus then (OK, SetConstValue n (Some (l - r)) q)
     else if k = KeyXBinaryStar then (OK, SetConstValue n (Some (l * r)) q)
     else if k = KeyXBinarySlash then
       (if r = zero then (Err DivByZero, q)
        else (OK, SetConstValue n (Some (big_Div l r)) q))
     else if k = KeyXBinaryShiftL then
       (if r < zero \<or> r > ffff then (Err ShiftOutOfRange, q)
        else (OK, SetConstValue n (Some (big_Lsh l (big_Uint64 r))) q))
     else if k = KeyXBinaryShiftR then
       (if r < zero \<or> r > ffff then (Err ShiftOutOfRange, q)
        else (OK, SetConstValue n (Some (big_Rsh l (big_Uint64 r))) q))
     else if k = KeyXBinaryAmp then (OK, SetConstValue n (Some (l AND r)) q)
     else if k = KeyXBinaryAmpHat then (OK, SetConstValue n (Some (l AND NOT r)) q)
     else if k = KeyXBinaryPipe then (OK, SetConstValue n (Some (l OR r)) q)
     else if k = KeyXBinaryHat then (OK, SetConstValue n (Some (l XOR r)) q)
     else if k = KeyXBinaryNotEq then (OK, SetConstValue n (Some (btoi (l \<noteq> r))) q)
     else if k = KeyXBinaryLessThan then (OK, SetConstValue n (Some (btoi (l < r))) q)
     else if k = KeyXBinaryLessEq then (OK, SetConstValue n (Some (btoi (l \<le> r))) q)
     else if k = KeyXBinaryEqEq then (OK, SetConstValue n (Some (btoi (l = r))) q)
     else if k = KeyXBinaryGreaterEq then (OK, SetConstValue n (Some (btoi (l \<ge> r))) q)
     else if k = KeyXBinaryGreaterThan then (OK, SetConstValue n (Some (btoi (l > r))) q)
     else if k = KeyXBinaryAnd then
       (OK, SetConstValue n (Some (btoi (l \<noteq> zero \<and> r \<noteq> zero))) q)
     else if k = KeyXBinaryOr then
       (OK, SetConstValue n (Some (btoi (l \<noteq> zero \<or> r \<noteq> zero))) q)
     else (OK, q))"

section \<open>Types of package \<open>check\<close>\<close>

text \<open>
  Modelled from the spec: the built-in type expressions \<open>TypeExprBool\<close>,
  \<open>TypeExprIdeal\<close> and \<open>TypeExprU8\<close> of package \<open>check\<close> are declared outside
  \<open>type.go\<close>.  They are three type-expression nodes of their own (bool, the pseudo-type
  of untyped numeric literals, and the byte type), allocated once, at addresses that no
  node of a parsed file has.
\<close>

definition TypeExprBool :: Node where
  "TypeExprBool = Node 1 KTypeExpr [] 0 ID_zero (ID KeyBool {}) None None None [] []"

definition TypeExprIdeal :: Node where
  "TypeExprIdeal = Node 2 KTypeExpr [] 0 ID_zero (ID KeyIdeal {}) None None None [] []"

definition TypeExprU8 :: Node where
  "TypeExprU8 = Node 3 KTypeExpr [] 0 ID_zero (ID KeyU8 {FlagsNumType}) None None None [] []"

text \<open>
  Modelled from the spec: \<open>Eq\<close> and \<open>EqIgnoringRefinements\<close> of \<open>*TypeExpr\<close> are
  not in \<open>ast.go\<close>.  Two type expressions are equal when they are the same pointer, or
  have the same package-or-decorator and name, equal bounds, and equal inner types;
  ignoring refinements skips the bounds, except for the length of an array type.  Two
  bound expressions are equal when they are the same pointer or have the same shape.
\<close>

fun shape :: "Node \<Rightarrow> Node" where
  "shape (Node a k f l i0 i1 lh mh rh l0 l1) =
     Node 0 k [] 0 i0 i1 (map_option shape lh) (map_option shape mh) (map_option shape rh)
       (map shape l0) (map shape l1)"

definition Expr_Eq :: "Node option \<Rightarrow> Node option \<Rightarrow> bool" where
  "Expr_Eq n o' = (ptrEq n o' \<or> map_option shape n = map_option shape o')"

fun eq :: "Node option \<Rightarrow> Node option \<Rightarrow> bool \<Rightarrow> bool" where
  "eq None None ignoreRefinements = True"
| "eq (Some n) None ignoreRefinements = False"
| "eq None (Some n') ignoreRefinements = False"
| "eq (Some (Node a k f l i0 i1 lh mh rh l0 l1)) (Some n') ignoreRefinements =
     (if a = addr n' then True
      else if i0 \<noteq> id0 n' \<or> i1 \<noteq> id1 n' then False
      else if (Key i0 = KeyOpenBracket \<or> \<not> ignoreRefinements) \<and>
              (\<not> Expr_Eq lh (lhs n') \<or> \<not> Expr_Eq mh (mhs n')) then False
      else eq rh (rhs n') ignoreRefinements)"

definition Eq :: "Node option \<Rightarrow> Node option \<Rightarrow> bool" where
  "Eq n o' = eq n o' False"

definition EqIgnoringRefinements :: "Node option \<Rightarrow> Node option \<Rightarrow> bool" where
  "EqIgnoringRefinements n o' = eq n o' True"

text \<open>
  Modelled from the spec: \<open>numeric\<close> of package \<open>check\<close> is declared outside
  \<open>type.go\<close>: a type is numeric when it is Ideal or a numeric type.  \<open>IsNumType\<close>
  dereferences its receiver, so a nil type that is not Ideal is a panic (\<open>None\<close>).
\<close>

definition numeric :: "Node option \<Rightarrow> bool option" where
  "numeric n = (if ptrEq n (Some TypeExprIdeal) then Some True
                else (case n of None \<Rightarrow> None | Some t \<Rightarrow> Some (IsNumType t)))"

text \<open>
  \<open>Impure\<close> and \<open>Suspendible\<close> of \<open>*Expr\<close>.  Modelled from the spec:
  \<open>CallImpure\<close> and \<open>CallSuspendible\<close> are not in \<open>ast.go\<close>; a call is impure
  (\<open>f!(x)\<close>) or suspendible (\<open>f?(x)\<close>) when the call expression has the flag.
\<close>

definition Impure :: "Node \<Rightarrow> checker \<Rightarrow> bool" where
  "Impure n q = (flags (heap q (addr n)) AND FlagsImpure \<noteq> 0)"

definition Suspendible :: "Node \<Rightarrow> checker \<Rightarrow> bool" where
  "Suspendible n q = (flags (heap q (addr n)) AND FlagsSuspendible \<noteq> 0)"

definition CallImpure :: "Node \<Rightarrow> checker \<Rightarrow> bool" where
  "CallImpure n q = Impure n q"

definition CallSuspendible :: "Node \<Rightarrow> checker \<Rightarrow> bool" where
  "CallSuspendible n q = Suspendible n q"

section \<open>Parsing a numeric literal (\<open>big.Int.SetString\<close> with base 0)\<close>

text \<open>
  \<open>SetString(s, 0)\<close> reads an optional sign, then a mantissa whose base is selected by
  its prefix (\<open>0x\<close> or \<open>0X\<close>: 16, \<open>0b\<close> or \<open>0B\<close>: 2, \<open>0\<close>: 8, otherwise 10),
  and fails unless the whole string has been consumed.  The digit loop stops at the first
  character that is not a digit of the base.  (The digit separator and the \<open>0o\<close> prefix
  of later releases of the Go library are not modelled.)
\<close>

definition digitVal :: "char \<Rightarrow> nat" where
  "digitVal c =
     (let n = (of_char c :: nat) in
      if 48 \<le> n \<and> n \<le> 57 then n - 48
      else if 97 \<le> n \<and> n \<le> 122 then n - 97 + 10
      else if 65 \<le> n \<and> n \<le> 90 then n - 65 + 10
      else 37)"

fun scanDigits :: "nat \<Rightarrow> string \<Rightarrow> nat \<Rightarrow> nat \<Rightarrow> nat \<times> nat \<times> string" where
  "scanDigits b [] acc count = (acc, count, [])"
| "scanDigits b (c # cs) acc count =
     (if digitVal c \<ge> b then (acc, count, c # cs)
      else scanDigits b cs (acc * b + digitVal c) (count + 1))"

definition scanFinish :: "nat \<Rightarrow> nat \<times> nat \<times> string \<Rightarrow> (nat \<times> string) option" where
  "scanFinish b r =
     (case r of (v, count, rest) \<Rightarrow>
        if count = 0 then (if b = 8 then Some (0, rest) else None)
        else Some (v, rest))"

definition nat_scan :: "string \<Rightarrow> (nat \<times> string) option" where
  "nat_scan s =
     (case s of
        [] \<Rightarrow> None
      | c # cs \<Rightarrow>
          if c = CHR ''0'' then
            (case cs of
               [] \<Rightarrow> Some (0, [])
             | c1 # cs1 \<Rightarrow>
                 if c1 = CHR ''x'' \<or> c1 = CHR ''X'' then
                   (if cs1 = [] then None else scanFinish 16 (scanDigits 16 cs1 0 0))
                 else if c1 = CHR ''b'' \<or> c1 = CHR ''B'' then
                   (if cs1 = [] then None else scanFinish 2 (scanDigits 2 cs1 0 0))
                 else scanFinish 8 (scanDigits 8 cs 0 0))
          else scanFinish 10 (scanDigits 10 s 0 0))"

definition SetString :: "string \<Rightarrow> int option" where
  "SetString s =
     (case s of
        [] \<Rightarrow> None
      | c # cs \<Rightarrow>
          (case nat_scan (if c = CHR ''-'' \<or> c = CHR ''+'' then cs else s) of
             None \<Rightarrow> None
           | Some (v, rest) \<Rightarrow>
               if rest \<noteq> [] then None
               else Some (if c = CHR ''-'' then - int v else int v)))"

section \<open>Checking expressions and type expressions (\<open>lang/check/type.go\<close>)\<close>

definition isInSrcReadU8 :: "Map \<Rightarrow> Node \<Rightarrow> bool option" where
  "isInSrcReadU8 m n =
     (if Key (id0 n) \<noteq> KeyDot \<or> Key (id1 n) \<noteq> KeyReadU8 then Some False
      else (case lhs n of None \<Rightarrow> None | Some n1 \<Rightarrow>
        (if Key (id0 n1) \<noteq> KeyDot \<or> id1 n1 \<noteq> ByName m ''src'' then Some False
         else (case lhs n1 of None \<Rightarrow> None | Some n2 \<Rightarrow>
           Some (id0 n2 = ID_zero \<and> Key (id1 n2) = KeyIn)))))"

definition isLowBits :: "Map \<Rightarrow> Node \<Rightarrow> bool" where
  "isLowBits m n = (Key (id0 n) = KeyDot \<and> Key (id1 n) = KeyLowBits)"

fun stripPtr :: "Node \<Rightarrow> Node option" where
  "stripPtr (Node a k f l i0 i1 lh mh rh l0 l1) =
     (if Key i0 = KeyPtr then (case rh of None \<Rightarrow> None | Some r \<Rightarrow> stripPtr r)
      else Some (Node a k f l i0 i1 lh mh rh l0 l1))"

fun findField :: "Node list \<Rightarrow> ID \<Rightarrow> Node option" where
  "findField [] name = None"
| "findField (field # fs) name =
     (if id1 field = name then Some field else findField fs name)"

definition comparisonOps :: "Key \<Rightarrow> bool" where
  "comparisonOps k =
     (k = KeyXBinaryNotEq \<or> k = KeyXBinaryLessThan \<or> k = KeyXBinaryLessEq \<or>
      k = KeyXBinaryEqEq \<or> k = KeyXBinaryGreaterEq \<or> k = KeyXBinaryGreaterThan)"

definition tcheckExprAssociativeOp :: "Node \<Rightarrow> 32 word \<Rightarrow> checker \<Rightarrow> result \<times> checker" where
  "tcheckExprAssociativeOp n depth q = (Err UnrecognizedKey, q)"

text \<open>
  The bodies of \<open>tcheckDot\<close>, \<open>tcheckExprUnaryOp\<close> and \<open>tcheckExprBinaryOp\<close>
  after their recursive calls are definitions of their own: \<open>dotField\<close> is
  \<open>tcheckDot\<close> from \<open>lTyp := lhs.MType()\<close> on, \<open>unaryOp\<close> is
  \<open>tcheckExprUnaryOp\<close> from \<open>rTyp := rhs.MType()\<close> on, \<open>binaryAs\<close> is the
  test of the \<open>as\<close> branch, and \<open>binaryOp\<close> is \<open>tcheckExprBinaryOp\<close> from
  \<open>rTyp := rhs.MType()\<close> on, with its two switches (\<open>binaryOperandCategory\<close>,
  \<open>binaryOperandCompat\<close>).
\<close>

definition dotField :: "Node \<Rightarrow> Node option \<Rightarrow> checker \<Rightarrow> result \<times> checker" where
  "dotField n lhs' q =
    (case lhs' of None \<Rightarrow> (Err Panic, q) | Some l \<Rightarrow>
      (case MType l q of None \<Rightarrow> (Err Panic, q) | Some lTyp0 \<Rightarrow>
        (case stripPtr lTyp0 of None \<Rightarrow> (Err Panic, q) | Some lTyp \<Rightarrow>
          (if id0 lTyp \<noteq> ID_zero then (Err UnsupportedDecoratorForDot, q)
           else if fFunc q \<noteq> None \<and> Key (id1 lTyp) = KeyBuf1 then
             (OK, SetMType n (Some TypeExprU8) q)
           else
             (case (case fFunc q of
                      None \<Rightarrow> None
                    | Some func \<Rightarrow>
                        (if Key (id1 lTyp) = KeyIn then lhs func
                         else if Key (id1 lTyp) = KeyOut then rhs func
                         else structs q (id1 lTyp))) of
                None \<Rightarrow> (Err NoStructType, q)
              | Some s \<Rightarrow>
                  (case findField (list0 s) (id1 n) of
                     Some f \<Rightarrow> (OK, SetMType n (lhs f) q)
                   | None \<Rightarrow> (Err NoSuchField, q)))))))"

definition unaryOp :: "Node \<Rightarrow> Node option \<Rightarrow> checker \<Rightarrow> result \<times> checker" where
  "unaryOp n rhs' q =
    (case rhs' of None \<Rightarrow> (Err Panic, q) | Some r \<Rightarrow>
      (let rTyp = MType r q in
       if Key (id0 n) = KeyXUnaryPlus \<or> Key (id0 n) = KeyXUnaryMinus then
         (case numeric rTyp of
            None \<Rightarrow> (Err Panic, q)
          | Some False \<Rightarrow> (Err NonNumeric, q)
          | Some True \<Rightarrow>
              (OK, SetMType n rTyp
                (case ConstValue r q of
                   None \<Rightarrow> q
                 | Some cv \<Rightarrow>
                     SetConstValue n
                       (Some (if Key (id0 n) = KeyXUnaryMinus then neg cv else cv)) q)))
       else if Key (id0 n) = KeyXUnaryNot then
         (if \<not> Eq rTyp (Some TypeExprBool) then (Err NotBoolean, q)
          else
            (OK, SetMType n (Some TypeExprBool)
              (case ConstValue r q of
                 None \<Rightarrow> q
               | Some cv \<Rightarrow> SetConstValue n (Some (btoi (cv = zero))) q)))
       else (Err UnrecognizedKey, q)))"

definition binaryAs :: "Node \<Rightarrow> Node option \<Rightarrow> Node option \<Rightarrow> checker \<Rightarrow> result \<times> checker" where
  "binaryAs n lTyp rhs' q =
    (case numeric lTyp of None \<Rightarrow> (Err Panic, q) | Some lNumeric \<Rightarrow>
      (if \<not> lNumeric then (Err CannotConvert, q)
       else (case rhs' of None \<Rightarrow> (Err Panic, q) | Some r \<Rightarrow>
         (if IsNumType r then (OK, SetMType n (Some r) q)
          else (Err CannotConvert, q)))))"

definition binaryOperandCategory :: "Key \<Rightarrow> Node option \<Rightarrow> Node option \<Rightarrow> result" where
  "binaryOperandCategory k lTyp rTyp =
    (if k = KeyXBinaryNotEq \<or> k = KeyXBinaryEqEq then OK
     else if k = KeyXBinaryAnd \<or> k = KeyXBinaryOr then
       (if \<not> ptrEq lTyp (Some TypeExprBool) then Err NotBoolean
        else if \<not> ptrEq rTyp (Some TypeExprBool) then Err NotBoolean
        else OK)
     else
       (case numeric lTyp of
          None \<Rightarrow> Err Panic
        | Some False \<Rightarrow> Err NonNumeric
        | Some True \<Rightarrow>
            (case numeric rTyp of
               None \<Rightarrow> Err Panic
             | Some False \<Rightarrow> Err NonNumeric
             | Some True \<Rightarrow> OK)))"

definition binaryOperandCompat :: "Key \<Rightarrow> Node option \<Rightarrow> Node option \<Rightarrow> result" where
  "binaryOperandCompat k lTyp rTyp =
    (if k = KeyXBinaryShiftL \<or> k = KeyXBinaryShiftR then
       (if ptrEq lTyp (Some TypeExprIdeal) \<and> \<not> ptrEq rTyp (Some TypeExprIdeal)
        then Err IncompatibleTypes else OK)
     else
       (if \<not> EqIgnoringRefinements lTyp rTyp \<and>
           \<not> ptrEq lTyp (Some TypeExprIdeal) \<and>
           \<not> ptrEq rTyp (Some TypeExprIdeal)
        then Err IncompatibleTypes else OK))"

definition binaryOp :: "Node \<Rightarrow> Node \<Rightarrow> Node option \<Rightarrow> checker \<Rightarrow> result \<times> checker" where
  "binaryOp n l rhs' q =
    (case rhs' of None \<Rightarrow> (Err Panic, q) | Some r \<Rightarrow>
      (let lTyp = MType l q; rTyp = MType r q; op = id0 n in
       case binaryOperandCategory (Key op) lTyp rTyp of
         Err e \<Rightarrow> (Err e, q)
       | OK \<Rightarrow>
          (case binaryOperandCompat (Key op) lTyp rTyp of
             Err e \<Rightarrow> (Err e, q)
           | OK \<Rightarrow>
              (case (case ConstValue l q of
                       None \<Rightarrow> (OK, q)
                     | Some lv \<Rightarrow>
                         (case ConstValue r q of
                            None \<Rightarrow> (OK, q)
                          | Some rv \<Rightarrow> setConstValueBinaryOp n lv rv q)) of
                 (Err e, q) \<Rightarrow> (Err e, q)
               | (OK, q) \<Rightarrow>
                   (if comparisonOps (Key op) then (OK, SetMType n (Some TypeExprBool) q)
                    else if \<not> ptrEq lTyp (Some TypeExprIdeal) then (OK, SetMType n lTyp q)
                    else (OK, SetMType n rTyp q))))))"

text \<open>
  The checker functions call each other; they terminate because every recursive call is on
  a child of the node (the depth counters play no part in it).
\<close>

definition osize :: "Node option \<Rightarrow> nat" where
  "osize n = (case n of None \<Rightarrow> 0 | Some x \<Rightarrow> size x)"

lemma osize_simps [simp]: "osize None = 0" "osize (Some x) = size x"
  by (simp_all add: osize_def)

lemma size_lhs: "lhs n = Some x \<Longrightarrow> size x < size n"
  by (cases n) simp
lemma osize_lhs: "osize (lhs n) < size n"
  by (cases n; cases "lhs n") auto
lemma osize_mhs: "osize (mhs n) < size n"
  by (cases n; cases "mhs n") auto
lemma osize_rhs: "osize (rhs n) < size n"
  by (cases n; cases "rhs n") auto
lemma size_list0: "size_list size (list0 n) < size n"
  by (cases n) simp
lemma size_list1: "size_list size (list1 n) < size n"
  by (cases n) simp
lemma osize_lhs_lhs: "lhs n = Some x \<Longrightarrow> osize (lhs x) < size n"
  using osize_lhs [of x] size_lhs [of n x] by simp

function tcheckExpr :: "Node option \<Rightarrow> 32 word \<Rightarrow> checker \<Rightarrow> result \<times> checker"
and tcheckExprOther :: "Node \<Rightarrow> 32 word \<Rightarrow> checker \<Rightarrow> result \<times> checker"
and tcheckArgs :: "Node list \<Rightarrow> 32 word \<Rightarrow> checker \<Rightarrow> result \<times> checker"
and tcheckArg :: "Node \<Rightarrow> 32 word \<Rightarrow> checker \<Rightarrow> result \<times> checker"
and tcheckDot :: "Node \<Rightarrow> 32 word \<Rightarrow> checker \<Rightarrow> result \<times> checker"
and tcheckExprUnaryOp :: "Node \<Rightarrow> 32 word \<Rightarrow> checker \<Rightarrow> result \<times> checker"
and tcheckExprBinaryOp :: "Node \<Rightarrow> 32 word \<Rightarrow> checker \<Rightarrow> result \<times> checker"
and tcheckBound :: "Node option \<Rightarrow> checker \<Rightarrow> result \<times> checker"
and tcheckTypeExpr :: "Node option \<Rightarrow> 32 word \<Rightarrow> checker \<Rightarrow> result \<times> checker"
where
  "tcheckExpr n depth q =
    (if depth > MaxExprDepth then (Err TooDeep, q)
     else (case n of None \<Rightarrow> (Err Panic, q) | Some n \<Rightarrow>
       (let depth = depth + 1;
            fl = Flags (id0 n) \<inter> {FlagsUnaryOp, FlagsBinaryOp, FlagsAssociativeOp}
        in case (if fl = {} then tcheckExprOther n depth q
                 else if fl = {FlagsUnaryOp} then tcheckExprUnaryOp n depth q
                 else if fl = {FlagsBinaryOp} then tcheckExprBinaryOp n depth q
                 else if fl = {FlagsAssociativeOp} then tcheckExprAssociativeOp n depth q
                 else (Err UnrecognizedKey, q)) of
             (Err e, q) \<Rightarrow> (Err e, q)
           | (OK, q) \<Rightarrow> (OK, SetTypeChecked n q))))"
| "tcheckExprOther n depth q =
    (if Key (id0 n) = KeyInvalid then
       (if IsNumLiteral (id1 n) then
          (case SetString (String (id1 n) (tm q)) of
             None \<Rightarrow> (Err InvalidNumericLiteral, q)
           | Some z \<Rightarrow> (OK, SetMType n (Some TypeExprIdeal) (SetConstValue n (Some z) q)))
        else if IsIdent (id1 n) then
          (case LocalVars q of
             None \<Rightarrow> (Err UnknownIdent, q)
           | Some vars \<Rightarrow>
               (case vars (id1 n) of
                  None \<Rightarrow> (Err UnknownIdent, q)
                | Some typ \<Rightarrow> (OK, SetMType n typ q)))
        else if Key (id1 n) = KeyFalse then
          (OK, SetMType n (Some TypeExprBool) (SetConstValue n (Some zero) q))
        else if Key (id1 n) = KeyTrue then
          (OK, SetMType n (Some TypeExprBool) (SetConstValue n (Some one) q))
        else (Err UnrecognizedKey, q))
     else if Key (id0 n) = KeyOpenParen then
       (case lhs n of None \<Rightarrow> (Err Panic, q) | Some l \<Rightarrow>
         (case isInSrcReadU8 (tm q) l of None \<Rightarrow> (Err Panic, q) | Some inSrcReadU8 \<Rightarrow>
           (if inSrcReadU8 \<and> CallSuspendible n q \<and> length (list0 n) = 0 then
              (case tcheckExpr (Some l) depth q of
                 (Err e, q) \<Rightarrow> (Err e, q)
               | (OK, q) \<Rightarrow> (OK, SetMType n (Some TypeExprU8) q))
            else if isLowBits (tm q) l \<and> \<not> CallImpure n q \<and> length (list0 n) = 1 then
              (case tcheckExpr (lhs l) depth q of
                 (Err e, q) \<Rightarrow> (Err e, q)
               | (OK, q) \<Rightarrow>
                   (case tcheckArgs (list0 n) depth
                           (SetMType l (Some TypeExprU8) (SetTypeChecked l q)) of
                      (Err e, q) \<Rightarrow> (Err e, q)
                    | (OK, q) \<Rightarrow>
                        (case lhs l of
                           None \<Rightarrow> (Err Panic, q)
                         | Some foo \<Rightarrow> (OK, SetMType n (MType foo q) q))))
            else (Err UnrecognizedKey, q))))
     else if Key (id0 n) = KeyDot then tcheckDot n depth q
     else (Err UnrecognizedKey, q))"
| "tcheckArgs [] depth q = (OK, q)"
| "tcheckArgs (o' # os) depth q =
    (case tcheckArg o' depth q of
       (Err e, q) \<Rightarrow> (Err e, q)
     | (OK, q) \<Rightarrow> tcheckArgs os depth q)"
| "tcheckArg n depth q =
    (case tcheckExpr (rhs n) depth q of
       (Err e, q) \<Rightarrow> (Err e, q)
     | (OK, q) \<Rightarrow> (OK, SetTypeChecked n q))"
| "tcheckDot n depth q =
    (case tcheckExpr (lhs n) depth q of
       (Err e, q) \<Rightarrow> (Err e, q)
     | (OK, q) \<Rightarrow> dotField n (lhs n) q)"
| "tcheckExprUnaryOp n depth q =
    (case tcheckExpr (rhs n) depth q of
       (Err e, q) \<Rightarrow> (Err e, q)
     | (OK, q) \<Rightarrow> unaryOp n (rhs n) q)"
| "tcheckExprBinaryOp n depth q =
    (case tcheckExpr (lhs n) depth q of
       (Err e, q) \<Rightarrow> (Err e, q)
     | (OK, q) \<Rightarrow>
        (case lhs n of None \<Rightarrow> (Err Panic, q) | Some l \<Rightarrow>
          (if Key (id0 n) = KeyXBinaryAs then
             (case tcheckTypeExpr (rhs n) 0 q of
                (Err e, q) \<Rightarrow> (Err e, q)
              | (OK, q) \<Rightarrow> binaryAs n (MType l q) (rhs n) q)
           else
             (case tcheckExpr (rhs n) depth q of
                (Err e, q) \<Rightarrow> (Err e, q)
              | (OK, q) \<Rightarrow> binaryOp n l (rhs n) q))))"
| "tcheckBound b q =
    (case b of
       None \<Rightarrow> (OK, q)
     | Some b' \<Rightarrow>
        (case tcheckExpr b 0 q of
           (Err e, q) \<Rightarrow> (Err e, q)
         | (OK, q) \<Rightarrow>
             (if ConstValue b' q = None then (Err NotConstant, q) else (OK, q))))"
| "tcheckTypeExpr n depth q =
    (if depth > MaxTypeExprDepth then (Err TooDeep, q)
     else (case n of None \<Rightarrow> (Err Panic, q) | Some n \<Rightarrow>
       (let depth = depth + 1 in
        if Key (id0 n) = KeyInvalid then
          (if ID_IsNumType (id1 n) then
             (case tcheckBound (lhs n) q of
                (Err e, q) \<Rightarrow> (Err e, q)
              | (OK, q) \<Rightarrow>
                 (case tcheckBound (mhs n) q of
                    (Err e, q) \<Rightarrow> (Err e, q)
                  | (OK, q) \<Rightarrow> (OK, SetTypeChecked n q)))
           else if Key (id1 n) = KeyBool \<or> Key (id1 n) = KeyBuf1 then
             (OK, SetTypeChecked n q)
           else (Err NotAType, q))
        else if Key (id0 n) = KeyPtr then
          (case tcheckTypeExpr (rhs n) depth q of
             (Err e, q) \<Rightarrow> (Err e, q)
           | (OK, q) \<Rightarrow> (OK, SetTypeChecked n q))
        else if Key (id0 n) = KeyOpenBracket then
          (case tcheckExpr (lhs n) 0 q of
             (Err e, q) \<Rightarrow> (Err e, q)
           | (OK, q) \<Rightarrow>
              (case lhs n of None \<Rightarrow> (Err Panic, q) | Some aLen \<Rightarrow>
                (if ConstValue aLen q = None then (Err NotConstant, q)
                 else
                   (case tcheckTypeExpr (rhs n) depth q of
                      (Err e, q) \<Rightarrow> (Err e, q)
                    | (OK, q) \<Rightarrow> (OK, SetTypeChecked n q)))))
        else (Err UnrecognizedKind, q))))"
  by pat_completeness auto

termination
  apply (relation "inv_image (less_than <*lex*> less_than)
    (\<lambda>x. case x of
        Inl (Inl (Inl (n, d, q))) \<Rightarrow> (osize n, 3::nat)
      | Inl (Inl (Inr (n, d, q))) \<Rightarrow> (size n, 2)
      | Inl (Inr (Inl (ns, d, q))) \<Rightarrow> (size_list size ns, 0)
      | Inl (Inr (Inr (n, d, q))) \<Rightarrow> (size n, 0)
      | Inr (Inl (Inl (n, d, q))) \<Rightarrow> (size n, 1)
      | Inr (Inl (Inr (n, d, q))) \<Rightarrow> (size n, 1)
      | Inr (Inr (Inl (n, d, q))) \<Rightarrow> (size n, 1)
      | Inr (Inr (Inr (Inl (n, q)))) \<Rightarrow> (osize n, 4)
      | Inr (Inr (Inr (Inr (n, d, q)))) \<Rightarrow> (osize n, 5))")
  apply (rule wf_inv_image, rule wf_lex_prod, rule wf_less_than, rule wf_less_than)
  apply (simp_all add: osize_lhs osize_mhs osize_rhs osize_lhs_lhs size_lhs size_list0)
  done


declare tcheckExpr.simps [simp del] tcheckExprOther.simps [simp del] tcheckArg.simps [simp del]
  tcheckDot.simps [simp del] tcheckExprUnaryOp.simps [simp del]
  tcheckExprBinaryOp.simps [simp del] tcheckBound.simps [simp del]
  tcheckTypeExpr.simps [simp del]

section \<open>Checking statements (\<open>lang/check/type.go\<close>)\<close>

definition setErrFilenameLine :: "Node \<Rightarrow> checker \<Rightarrow> checker" where
  "setErrFilenameLine n q = q\<lparr>errFilename := filename n, errLine := line n\<rparr>"

text \<open>
  \<open>tcheckVars\<close>: the loop over \<open>n.Raw().SubLists()\<close>, which are \<open>list0\<close> and
  \<open>list1\<close>, is \<open>tcheckVarsList\<close> on the one and then on the other.  Storing into a
  nil map panics.
\<close>

function tcheckVars :: "Node \<Rightarrow> checker \<Rightarrow> result \<times> checker"
and tcheckVarsList :: "Node list \<Rightarrow> checker \<Rightarrow> result \<times> checker"
where
  "tcheckVars n q0 =
    (let q = setErrFilenameLine n q0 in
     if kind n = KVar then
       (if (case LocalVars q of None \<Rightarrow> False | Some vars \<Rightarrow> vars (id1 n) \<noteq> None)
        then (Err DuplicateVar, q)
        else
          (case tcheckTypeExpr (lhs n) 0 q of
             (Err e, q) \<Rightarrow> (Err e, q)
           | (OK, q) \<Rightarrow>
              (case LocalVars q of
                 None \<Rightarrow> (Err Panic, q)
               | Some vars \<Rightarrow> (OK, q\<lparr>LocalVars := Some (vars(id1 n \<mapsto> lhs n))\<rparr>))))
     else
       (case tcheckVarsList (list0 n) q of
          (Err e, q) \<Rightarrow> (Err e, q)
        | (OK, q) \<Rightarrow> tcheckVarsList (list1 n) q))"
| "tcheckVarsList [] q = (OK, q)"
| "tcheckVarsList (o' # os) q =
    (case tcheckVars o' q of
       (Err e, q) \<Rightarrow> (Err e, q)
     | (OK, q) \<Rightarrow> tcheckVarsList os q)"
  by pat_completeness auto

termination
  apply (relation "measure (\<lambda>x. case x of
        Inl (n, q) \<Rightarrow> size n
      | Inr (ns, q) \<Rightarrow> size_list size ns)")
  apply (simp_all add: size_list0 size_list1)
  done

declare tcheckVars.simps [simp del]

text \<open>
  \<open>tcheckAssert\<close>; \<open>tcheckAssertArgs\<close> is its loop over \<open>n.Args()\<close>.
\<close>

fun tcheckAssertArgs :: "Node list \<Rightarrow> checker \<Rightarrow> result \<times> checker" where
  "tcheckAssertArgs [] q = (OK, q)"
| "tcheckAssertArgs (o' # os) q =
    (case tcheckExpr (rhs o') 0 q of
       (Err e, q) \<Rightarrow> (Err e, q)
     | (OK, q) \<Rightarrow> tcheckAssertArgs os (SetTypeChecked o' q))"

definition tcheckAssert :: "Node \<Rightarrow> checker \<Rightarrow> result \<times> checker" where
  "tcheckAssert n q =
    (case tcheckExpr (rhs n) 0 q of
       (Err e, q) \<Rightarrow> (Err e, q)
     | (OK, q) \<Rightarrow>
        (case rhs n of None \<Rightarrow> (Err Panic, q) | Some cond \<Rightarrow>
          (if \<not> Eq (MType cond q) (Some TypeExprBool) then (Err NotBoolean, q)
           else tcheckAssertArgs (list0 n) q)))"

text \<open>The loop over \<open>n.Asserts()\<close> in the \<open>KWhile\<close> case of \<open>tcheckStatement\<close>.\<close>

fun tcheckAsserts :: "Node list \<Rightarrow> checker \<Rightarrow> result \<times> checker" where
  "tcheckAsserts [] q = (OK, q)"
| "tcheckAsserts (o' # os) q =
    (case tcheckAssert o' q of
       (Err e, q) \<Rightarrow> (Err e, q)
     | (OK, q) \<Rightarrow> tcheckAsserts os (SetTypeChecked o' q))"

text \<open>
  \<open>tcheckAssign\<close>; \<open>assignable\<close> is its body from \<open>lTyp := lhs.MType()\<close> on.
  \<open>IsNumType\<close> dereferences its receiver: on a nil type it panics.
\<close>

definition TypeExpr_IsNumType :: "Node option \<Rightarrow> bool option" where
  "TypeExpr_IsNumType t = (case t of None \<Rightarrow> None | Some n \<Rightarrow> Some (IsNumType n))"

definition assignable :: "Node \<Rightarrow> Node option \<Rightarrow> Node option \<Rightarrow> result" where
  "assignable n lTyp rTyp =
    (if Key (id0 n) = KeyEq then
       (if ptrEq rTyp (Some TypeExprIdeal) then
          (case TypeExpr_IsNumType lTyp of
             None \<Rightarrow> Err Panic
           | Some lNum \<Rightarrow>
               if lNum \<or> EqIgnoringRefinements lTyp rTyp then OK else Err NotAssignable)
        else if EqIgnoringRefinements lTyp rTyp then OK
        else Err NotAssignable)
     else
       (case TypeExpr_IsNumType lTyp of
          None \<Rightarrow> Err Panic
        | Some lNum \<Rightarrow>
            if \<not> lNum then Err NonNumeric
            else if Key (id0 n) = KeyShiftLEq \<or> Key (id0 n) = KeyShiftREq then
              (case TypeExpr_IsNumType rTyp of
                 None \<Rightarrow> Err Panic
               | Some rNum \<Rightarrow> if rNum then OK else Err NonNumeric)
            else if ptrEq rTyp (Some TypeExprIdeal) \<or> EqIgnoringRefinements lTyp rTyp then OK
            else Err IncompatibleTypes))"

definition tcheckAssign :: "Node \<Rightarrow> checker \<Rightarrow> result \<times> checker" where
  "tcheckAssign n q =
    (case tcheckExpr (lhs n) 0 q of
       (Err e, q) \<Rightarrow> (Err e, q)
     | (OK, q) \<Rightarrow>
        (case tcheckExpr (rhs n) 0 q of
           (Err e, q) \<Rightarrow> (Err e, q)
         | (OK, q) \<Rightarrow>
            (case lhs n of None \<Rightarrow> (Err Panic, q) | Some l \<Rightarrow>
              (case rhs n of None \<Rightarrow> (Err Panic, q) | Some r \<Rightarrow>
                (assignable n (MType l q) (MType r q), q)))))"

text \<open>
  The \<open>KJump\<close> case.  \<open>searchJumpTargets ts i x\<close> is the loop
  \<open>for i := len(q.jumpTargets) - 1; i >= 0; i--\<close>, with \<open>i\<close> the number of targets still
  to look at.  Modelled from the spec: \<open>SetHasBreak\<close>, \<open>SetHasContinue\<close> and
  \<open>SetJumpTarget\<close> are not in \<open>ast.go\<close>; they set the target's \<open>has_break\<close> or
  \<open>has_continue\<close> bit and record the back-reference on the \<open>Jump\<close> node.
\<close>

fun searchJumpTargets :: "Node list \<Rightarrow> nat \<Rightarrow> ID \<Rightarrow> Node option" where
  "searchJumpTargets ts 0 x = None"
| "searchJumpTargets ts (Suc i) x =
     (if id1 (ts ! i) = x then Some (ts ! i) else searchJumpTargets ts i x)"

definition SetHasBreak :: "Node \<Rightarrow> checker \<Rightarrow> checker" where
  "SetHasBreak n q =
     q\<lparr>heap := (heap q)(addr n := (heap q (addr n))\<lparr>hasBreak := True\<rparr>)\<rparr>"

definition SetHasContinue :: "Node \<Rightarrow> checker \<Rightarrow> checker" where
  "SetHasContinue n q =
     q\<lparr>heap := (heap q)(addr n := (heap q (addr n))\<lparr>hasContinue := True\<rparr>)\<rparr>"

definition SetJumpTarget :: "Node \<Rightarrow> Node option \<Rightarrow> checker \<Rightarrow> checker" where
  "SetJumpTarget n x q =
     q\<lparr>heap := (heap q)(addr n := (heap q (addr n))\<lparr>jumpTarget := x\<rparr>)\<rparr>"

definition findJumpTarget :: "Node \<Rightarrow> checker \<Rightarrow> Node option" where
  "findJumpTarget n q =
     (if id1 n \<noteq> ID_zero then
        searchJumpTargets (jumpTargets q) (length (jumpTargets q)) (id1 n)
      else if length (jumpTargets q) > 0 then
        Some (jumpTargets q ! (length (jumpTargets q) - 1))
      else None)"

definition tcheckJump :: "Node \<Rightarrow> checker \<Rightarrow> result \<times> checker" where
  "tcheckJump n q =
    (case findJumpTarget n q of
       None \<Rightarrow> (Err NoJumpTarget, q)
     | Some jumpTarget' \<Rightarrow>
         (OK, SetJumpTarget n (Some jumpTarget')
                (if Key (id0 n) = KeyBreak then SetHasBreak jumpTarget' q
                 else SetHasContinue jumpTarget' q)))"

text \<open>
  The second loop of the \<open>KIf\<close> case: \<open>SetTypeChecked\<close> on every node of the
  else-if chain.
\<close>

fun markIfChain :: "Node \<Rightarrow> checker \<Rightarrow> checker" where
  "markIfChain (Node a k f l i0 i1 lh mh rh l0 l1) q =
     (let q = SetTypeChecked (Node a k f l i0 i1 lh mh rh l0 l1) q in
      case rh of None \<Rightarrow> q | Some n' \<Rightarrow> markIfChain n' q)"

text \<open>
  The deferred function of the \<open>KWhile\<close> case:
  \<open>q.jumpTargets = q.jumpTargets[:len(q.jumpTargets)-1]\<close>, which panics on an empty
  slice.  It runs on every return that follows the \<open>defer\<close> statement.
\<close>

definition popJumpTarget :: "result \<times> checker \<Rightarrow> result \<times> checker" where
  "popJumpTarget rq =
     (case rq of (r, q) \<Rightarrow>
        if jumpTargets q = [] then (Err Panic, q)
        else (r, q\<lparr>jumpTargets := butlast (jumpTargets q)\<rparr>))"

text \<open>
  \<open>tcheckStatement\<close>; \<open>tcheckStatements\<close> is a loop over a body, \<open>tcheckIfChain\<close>
  the first loop of the \<open>KIf\<close> case (\<open>for n := n.If(); n != nil; n = n.ElseIf()\<close>).
\<close>

function tcheckStatement :: "Node \<Rightarrow> checker \<Rightarrow> result \<times> checker"
and tcheckStatements :: "Node list \<Rightarrow> checker \<Rightarrow> result \<times> checker"
and tcheckIfChain :: "Node option \<Rightarrow> checker \<Rightarrow> result \<times> checker"
where
  "tcheckStatement n q0 =
    (let q = setErrFilenameLine n q0 in
     if kind n = KAssert then
       (case tcheckAssert n q of
          (Err e, q) \<Rightarrow> (Err e, q)
        | (OK, q) \<Rightarrow> (OK, SetTypeChecked n q))
     else if kind n = KAssign then
       (case tcheckAssign n q of
          (Err e, q) \<Rightarrow> (Err e, q)
        | (OK, q) \<Rightarrow> (OK, SetTypeChecked n q))
     else if kind n = KIf then
       (case tcheckIfChain (Some n) q of
          (Err e, q) \<Rightarrow> (Err e, q)
        | (OK, q) \<Rightarrow> (OK, markIfChain n q))
     else if kind n = KJump then
       (case tcheckJump n q of
          (Err e, q) \<Rightarrow> (Err e, q)
        | (OK, q) \<Rightarrow> (OK, SetTypeChecked n q))
     else if kind n = KReturn then
       (case lhs n of
          None \<Rightarrow> (OK, SetTypeChecked n q)
        | Some v \<Rightarrow>
           (case tcheckExpr (Some v) 0 q of
              (Err e, q) \<Rightarrow> (Err e, q)
            | (OK, q) \<Rightarrow> (OK, SetTypeChecked n q)))
     else if kind n = KVar then
       (case lhs n of None \<Rightarrow> (Err Panic, q) | Some xType \<Rightarrow>
         (if \<not> TypeChecked xType q then (Err InternalUncheckedTypeExpr, q)
          else
            (case rhs n of
               None \<Rightarrow> (OK, SetTypeChecked n q)
             | Some v \<Rightarrow>
                (case tcheckExpr (Some v) 0 q of
                   (Err e, q) \<Rightarrow> (Err e, q)
                 | (OK, q) \<Rightarrow> (OK, SetTypeChecked n q)))))
     else if kind n = KWhile then
       (case tcheckExpr (lhs n) 0 q of
          (Err e, q) \<Rightarrow> (Err e, q)
        | (OK, q) \<Rightarrow>
           (case lhs n of None \<Rightarrow> (Err Panic, q) | Some cond \<Rightarrow>
             (if \<not> Eq (MType cond q) (Some TypeExprBool) then (Err NotBoolean, q)
              else
                (case tcheckAsserts (list0 n) q of
                   (Err e, q) \<Rightarrow> (Err e, q)
                 | (OK, q) \<Rightarrow>
                    popJumpTarget
                      (case tcheckStatements (list1 n)
                              (q\<lparr>jumpTargets := jumpTargets q @ [n]\<rparr>) of
                         (Err e, q) \<Rightarrow> (Err e, q)
                       | (OK, q) \<Rightarrow> (OK, SetTypeChecked n q))))))
     else (Err UnrecognizedKind, q))"
| "tcheckStatements [] q = (OK, q)"
| "tcheckStatements (o' # os) q =
    (case tcheckStatement o' q of
       (Err e, q) \<Rightarrow> (Err e, q)
     | (OK, q) \<Rightarrow> tcheckStatements os q)"
| "tcheckIfChain None q = (OK, q)"
| "tcheckIfChain (Some n) q =
    (case tcheckExpr (lhs n) 0 q of
       (Err e, q) \<Rightarrow> (Err e, q)
     | (OK, q) \<Rightarrow>
        (case lhs n of None \<Rightarrow> (Err Panic, q) | Some cond \<Rightarrow>
          (if \<not> Eq (MType cond q) (Some TypeExprBool) then (Err NotBoolean, q)
           else
             (case tcheckStatements (list0 n) q of
                (Err e, q) \<Rightarrow> (Err e, q)
              | (OK, q) \<Rightarrow>
                 (case tcheckStatements (list1 n) q of
                    (Err e, q) \<Rightarrow> (Err e, q)
                  | (OK, q) \<Rightarrow> tcheckIfChain (rhs n) q)))))"
  by pat_completeness auto

termination
  apply (relation "inv_image (less_than <*lex*> less_than)
    (\<lambda>x. case x of
        Inl (n, q) \<Rightarrow> (size n, 1::nat)
      | Inr (Inl (ns, q)) \<Rightarrow> (size_list size ns, 0)
      | Inr (Inr (n, q)) \<Rightarrow> (osize n, 0))")
  apply (rule wf_inv_image, rule wf_lex_prod, rule wf_less_than, rule wf_less_than)
  apply (simp_all add: osize_rhs size_list0 size_list1)
  done

declare tcheckStatement.simps [simp del]

section \<open>Inputs for the examples\<close>

text \<open>
  The constructors of \<open>ast.go\<close> that the examples use, with the address of the new
  node as first argument.  The location is left zero, as in \<open>ast.go\<close>; the flags of
  the new node are in the store.
\<close>

definition NewExpr ::
  "addr \<Rightarrow> ID \<Rightarrow> ID \<Rightarrow> Node option \<Rightarrow> Node option \<Rightarrow> Node option \<Rightarrow> Node list \<Rightarrow> Node" where
  "NewExpr a operator nameLiteralSelector lhs' mhs' rhs' args =
     Node a KExpr [] 0 operator nameLiteralSelector lhs' mhs' rhs' args []"

definition NewTypeExpr ::
  "addr \<Rightarrow> ID \<Rightarrow> ID \<Rightarrow> Node option \<Rightarrow> Node option \<Rightarrow> Node option \<Rightarrow> Node" where
  "NewTypeExpr a pkgOrDec name arrayLengthMin max' inner =
     Node a KTypeExpr [] 0 pkgOrDec name arrayLengthMin max' inner [] []"

definition NewAssign :: "addr \<Rightarrow> ID \<Rightarrow> Node \<Rightarrow> Node \<Rightarrow> Node" where
  "NewAssign a operator lhs' rhs' =
     Node a KAssign [] 0 operator ID_zero (Some lhs') None (Some rhs') [] []"

definition NewVar :: "addr \<Rightarrow> ID \<Rightarrow> Node \<Rightarrow> Node option \<Rightarrow> Node" where
  "NewVar a name xType v = Node a KVar [] 0 ID_zero name (Some xType) None v [] []"

definition NewWhile :: "addr \<Rightarrow> ID \<Rightarrow> Node \<Rightarrow> Node list \<Rightarrow> Node list \<Rightarrow> Node" where
  "NewWhile a label condition asserts body =
     Node a KWhile [] 0 ID_zero label (Some condition) None None asserts body"

definition NewIf :: "addr \<Rightarrow> Node \<Rightarrow> Node option \<Rightarrow> Node list \<Rightarrow> Node list \<Rightarrow> Node" where
  "NewIf a condition elseIf bodyIfTrue bodyIfFalse =
     Node a KIf [] 0 ID_zero ID_zero (Some condition) None elseIf bodyIfTrue bodyIfFalse"

definition NewJump :: "addr \<Rightarrow> ID \<Rightarrow> ID \<Rightarrow> Node" where
  "NewJump a keyword label = Node a KJump [] 0 keyword label None None None [] []"

text \<open>
  A checker at the start of a function body: no local variable, no enclosing loop, and
  every node as the parser leaves it (no flag, no annotation).
\<close>

definition annot0 :: annot where
  "annot0 = \<lparr>flags = 0, constValue = None, mType = None,
             hasBreak = False, hasContinue = False, jumpTarget = None\<rparr>"

definition newChecker :: "Map \<Rightarrow> checker" where
  "newChecker m = \<lparr>tm = m, structs = Map.empty, fFunc = None, LocalVars = Some Map.empty,
                   jumpTargets = [], errFilename = [], errLine = 0, heap = (\<lambda>a. annot0)\<rparr>"

text \<open>The expression \<open>l / r\<close> and the expression \<open>l << r\<close>, for two leaves.\<close>

definition exSlash :: Node where
  "exSlash = NewExpr 10 (ID KeyXBinarySlash {FlagsBinaryOp}) ID_zero
     (Some (NewExpr 11 ID_zero (ID (KeyOther 1) {FlagsNumLiteral}) None None None []))
     None
     (Some (NewExpr 12 ID_zero (ID (KeyOther 2) {FlagsNumLiteral}) None None None [])) []"

definition exShiftL :: Node where
  "exShiftL = NewExpr 10 (ID KeyXBinaryShiftL {FlagsBinaryOp}) ID_zero
     (Some (NewExpr 11 ID_zero (ID (KeyOther 1) {FlagsNumLiteral}) None None None []))
     None
     (Some (NewExpr 12 ID_zero (ID (KeyOther 2) {FlagsNumLiteral}) None None None [])) []"

section \<open>Constant folding: division and shifts\<close>

lemma big_Div_eq: "r \<noteq> 0 \<Longrightarrow> big_Div l r = sgn r * (l div \<bar>r\<bar>)"
proof -
  assume r: "r \<noteq> 0"
  define b where "b = \<bar>r\<bar>"
  have b: "b > 0" using r by (simp add: b_def)
  show ?thesis
  proof (cases "l \<ge> 0")
    case True
    then have "\<bar>l\<bar> = l" by simp
    moreover have "sgn l * (l mod b) \<ge> 0" using True b by (simp add: sgn_if)
    moreover have "sgn l * (l div b) = l div b" using True by (simp add: sgn_if)
    ultimately show ?thesis
      by (simp add: big_Div_def big_Quo_def big_Rem_def Let_def b_def [symmetric] mult.assoc mult.left_commute)
  next
    case False
    then have l: "l < 0" by simp
    then have al: "\<bar>l\<bar> = - l" by simp
    have sl: "sgn l = -1" using l by simp
    show ?thesis
    proof (cases "(- l) mod b = 0")
      case True
      then have "l div b = - ((- l) div b)"
        using zdiv_zminus1_eq_if [of b "- l"] b by simp
      then show ?thesis using True
        by (simp add: big_Div_def big_Quo_def big_Rem_def Let_def b_def [symmetric] al sl)
    next
      case False
      then have d: "l div b = - ((- l) div b) - 1"
        using zdiv_zminus1_eq_if [of b "- l"] b by simp
      have "(- l) mod b > 0" using False b
        by (smt (verit) pos_mod_sign)
      then have neg: "sgn l * ((- l) mod b) < 0" using sl by simp
      have rem: "big_Rem l r < 0" using neg by (simp add: big_Rem_def al b_def)
      have quo: "big_Quo l r = - (sgn r * ((- l) div b))"
        by (simp add: big_Quo_def al sl b_def)
      show ?thesis
      proof (cases "r < 0")
        case True
        then show ?thesis using rem quo d by (simp add: big_Div_def Let_def b_def [symmetric])
      next
        case False
        then have "r > 0" using r by simp
        then show ?thesis using rem quo d by (simp add: big_Div_def Let_def b_def [symmetric])
      qed
    qed
  qed
qed

lemma big_Div_euclid: 
  assumes "r \<noteq> 0"
  shows "l = big_Div l r * r + l mod \<bar>r\<bar>"
proof -
  have "sgn r * r = \<bar>r\<bar>" by (simp add: sgn_if)
  then have "big_Div l r * r = (l div \<bar>r\<bar>) * \<bar>r\<bar>"
    using assms by (simp add: big_Div_eq mult.assoc mult.left_commute mult.commute)
  then show ?thesis by simp
qed

lemma big_Div_trunc: 
  assumes "r \<noteq> 0"
  shows "big_Div l r = big_Quo l r \<longleftrightarrow> (0 \<le> l \<or> r dvd l)"
proof -
  have m: "0 \<le> \<bar>l\<bar> mod \<bar>r\<bar>" using assms by simp
  have z: "\<bar>l\<bar> mod \<bar>r\<bar> = 0 \<longleftrightarrow> r dvd l"
    by (simp add: mod_eq_0_iff_dvd)
  have "big_Rem l r < 0 \<longleftrightarrow> \<not> (0 \<le> l \<or> r dvd l)"
  proof (cases "0 \<le> l")
    case True
    then show ?thesis using m by (simp add: big_Rem_def sgn_if)
  next
    case False
    then have "big_Rem l r = - (\<bar>l\<bar> mod \<bar>r\<bar>)" by (simp add: big_Rem_def)
    then show ?thesis using m z False by linarith
  qed
  then show ?thesis
    by (auto simp: big_Div_def Let_def)
qed

lemma big_Uint64_in_range: "0 \<le> r \<Longrightarrow> r \<le> 0xFFFF \<Longrightarrow> big_Uint64 r = nat r"
  by (simp add: big_Uint64_def)

lemma big_Div_differs_by_one:
  assumes "r \<noteq> 0" and "\<not> (0 \<le> l \<or> r dvd l)"
  shows "\<bar>big_Div l r - big_Quo l r\<bar> = 1"
proof -
  have "big_Div l r \<noteq> big_Quo l r"
    using big_Div_trunc [OF assms(1), of l] assms(2) by simp
  then show ?thesis
    by (auto simp: big_Div_def Let_def split: if_splits)
qed

lemma ConstValue_SetConstValue: "ConstValue n (SetConstValue n x q) = x"
  by (simp add: ConstValue_def SetConstValue_def)

text \<open>
  C1 (as the code has it).  For a division \<open>l / r\<close> with a nonzero constant divisor,
  the fold succeeds and afterwards the node's constant value is the Euclidean quotient of
  Go's \<open>Div\<close>: the \<open>d\<close> with \<open>l = d * r + m\<close> and \<open>0 \<le> m < |r|\<close>.  It is the
  quotient rounded toward zero (\<open>big_Quo\<close>) exactly when \<open>l\<close> is not negative or
  \<open>r\<close> divides \<open>l\<close>, and differs from it by one otherwise.
\<close>

theorem C1_division_is_euclidean:
  assumes "Key (id0 n) = KeyXBinarySlash" and "r \<noteq> 0"
  shows "fst (setConstValueBinaryOp n l r q) = OK
       \<and> ConstValue n (snd (setConstValueBinaryOp n l r q)) = Some (big_Div l r)
       \<and> setConstValueBinaryOp n l r q = (OK, SetConstValue n (Some (big_Div l r)) q)
       \<and> l = big_Div l r * r + l mod \<bar>r\<bar> \<and> 0 \<le> l mod \<bar>r\<bar> \<and> l mod \<bar>r\<bar> < \<bar>r\<bar>
       \<and> (big_Div l r = big_Quo l r \<longleftrightarrow> 0 \<le> l \<or> r dvd l)
       \<and> (\<not> (0 \<le> l \<or> r dvd l) \<longrightarrow> \<bar>big_Div l r - big_Quo l r\<bar> = 1)"
proof -
  have e: "setConstValueBinaryOp n l r q = (OK, SetConstValue n (Some (big_Div l r)) q)"
    using assms by (simp add: setConstValueBinaryOp_def zero_def)
  have "fst (setConstValueBinaryOp n l r q) = OK"
    by (simp add: e)
  moreover have "ConstValue n (snd (setConstValueBinaryOp n l r q)) = Some (big_Div l r)"
    by (simp add: e ConstValue_SetConstValue)
  moreover have "l = big_Div l r * r + l mod \<bar>r\<bar>"
    using assms(2) by (rule big_Div_euclid)
  moreover have "0 \<le> l mod \<bar>r\<bar>" "l mod \<bar>r\<bar> < \<bar>r\<bar>"
    using assms(2) by simp_all
  moreover have "big_Div l r = big_Quo l r \<longleftrightarrow> 0 \<le> l \<or> r dvd l"
    using assms(2) by (rule big_Div_trunc)
  moreover have "\<not> (0 \<le> l \<or> r dvd l) \<longrightarrow> \<bar>big_Div l r - big_Quo l r\<bar> = 1"
    using big_Div_differs_by_one [OF assms(2)] by blast
  ultimately show ?thesis using e by blast
qed

theorem C1_division_is_euclidean_witness:
  "Key (id0 exSlash) = KeyXBinarySlash \<and> (2::int) \<noteq> 0
   \<and> fst (setConstValueBinaryOp exSlash (- 7) 2 (newChecker [])) = OK
   \<and> ConstValue exSlash (snd (setConstValueBinaryOp exSlash (- 7) 2 (newChecker []))) =
       Some (- 4)
   \<and> big_Quo (- 7) 2 = - 3
   \<and> \<bar>big_Div (- 7) 2 - big_Quo (- 7) 2\<bar> = 1"
proof -
  have k: "Key (id0 exSlash) = KeyXBinarySlash"
    by (simp add: exSlash_def NewExpr_def)
  have d: "big_Div (- 7) 2 = - 4" "big_Quo (- 7) 2 = - 3"
    by (simp_all add: big_Div_def big_Quo_def big_Rem_def)
  have z: "(2::int) \<noteq> 0" by simp
  show ?thesis
    using C1_division_is_euclidean [OF k z, of "- 7" "newChecker []"] k d
    by (simp add: ConstValue_SetConstValue)
qed

text \<open>
  The claim C1 as written (the quotient rounded toward zero) fails at \<open>-7 / 2\<close>: the
  checker stores \<open>-4\<close>, the quotient rounded toward zero is \<open>-3\<close>.
\<close>

theorem C1_truncated_counterexample:
  "ConstValue exSlash (snd (setConstValueBinaryOp exSlash (- 7) 2 (newChecker []))) = Some (- 4)
   \<and> big_Quo (- 7) 2 = - 3"
  by (simp add: setConstValueBinaryOp_def exSlash_def NewExpr_def zero_def ConstValue_def
      SetConstValue_def big_Div_def big_Quo_def big_Rem_def)

text \<open>
  C8.  In the constant folding of a shift \<open>l << r\<close> or \<open>l >> r\<close>, a count that is
  negative or greater than \<open>0xFFFF\<close> fails with \<open>ShiftOutOfRange\<close> and changes nothing;
  for a count in \<open>[0, 0xFFFF]\<close> the fold succeeds and afterwards the node's constant
  value is \<open>l\<close> shifted by the count: \<open>l * 2 ^ r\<close> to the left, \<open>l div 2 ^ r\<close>
  (rounded down) to the right.
\<close>

theorem C8_shift_count_range:
  assumes "Key (id0 n) = KeyXBinaryShiftL \<or> Key (id0 n) = KeyXBinaryShiftR"
  shows "(r < 0 \<or> r > 0xFFFF \<longrightarrow>
            setConstValueBinaryOp n l r q = (Err ShiftOutOfRange, q))
       \<and> (0 \<le> r \<and> r \<le> 0xFFFF \<longrightarrow>
            fst (setConstValueBinaryOp n l r q) = OK
          \<and> ConstValue n (snd (setConstValueBinaryOp n l r q)) =
              Some (if Key (id0 n) = KeyXBinaryShiftL then l * 2 ^ nat r
                    else l div 2 ^ nat r)
          \<and> setConstValueBinaryOp n l r q =
              (OK, SetConstValue n
                     (Some (if Key (id0 n) = KeyXBinaryShiftL then l * 2 ^ nat r
                            else l div 2 ^ nat r)) q))"
proof (intro conjI impI)
  assume "r < 0 \<or> r > 0xFFFF"
  then show "setConstValueBinaryOp n l r q = (Err ShiftOutOfRange, q)"
    using assms by (auto simp: setConstValueBinaryOp_def zero_def ffff_def)
next
  assume r: "0 \<le> r \<and> r \<le> 0xFFFF"
  then have u: "big_Uint64 r = nat r" by (simp add: big_Uint64_in_range)
  from r have nr: "\<not> (r < zero \<or> r > ffff)" by (simp add: zero_def ffff_def)
  show e: "setConstValueBinaryOp n l r q =
          (OK, SetConstValue n
                 (Some (if Key (id0 n) = KeyXBinaryShiftL then l * 2 ^ nat r
                        else l div 2 ^ nat r)) q)"
    using assms nr u
    by (auto simp: setConstValueBinaryOp_def big_Lsh_def big_Rsh_def
          push_bit_eq_mult drop_bit_eq_div)
  show "fst (setConstValueBinaryOp n l r q) = OK"
    by (simp add: e)
  show "ConstValue n (snd (setConstValueBinaryOp n l r q)) =
          Some (if Key (id0 n) = KeyXBinaryShiftL then l * 2 ^ nat r else l div 2 ^ nat r)"
    by (simp only: e snd_conv ConstValue_SetConstValue)
qed

theorem C8_shift_count_range_witness:
  "(Key (id0 exShiftL) = KeyXBinaryShiftL \<or> Key (id0 exShiftL) = KeyXBinaryShiftR)
   \<and> setConstValueBinaryOp exShiftL 1 0x10000 (newChecker []) =
       (Err ShiftOutOfRange, newChecker [])
   \<and> setConstValueBinaryOp exShiftL 1 (- 1) (newChecker []) =
       (Err ShiftOutOfRange, newChecker [])
   \<and> fst (setConstValueBinaryOp exShiftL 1 20 (newChecker [])) = OK
   \<and> ConstValue exShiftL (snd (setConstValueBinaryOp exShiftL 1 20 (newChecker []))) =
       Some 1048576"
proof -
  have k: "Key (id0 exShiftL) = KeyXBinaryShiftL \<or> Key (id0 exShiftL) = KeyXBinaryShiftR"
    by (simp add: exShiftL_def NewExpr_def)
  have k': "Key (id0 exShiftL) = KeyXBinaryShiftL"
    by (simp add: exShiftL_def NewExpr_def)
  have a: "setConstValueBinaryOp exShiftL 1 0x10000 (newChecker []) =
             (Err ShiftOutOfRange, newChecker [])"
    using C8_shift_count_range [OF k, THEN conjunct1, of "0x10000" 1 "newChecker []"]
    by simp
  have b: "setConstValueBinaryOp exShiftL 1 (- 1) (newChecker []) =
             (Err ShiftOutOfRange, newChecker [])"
    using C8_shift_count_range [OF k, THEN conjunct1, of "- 1" 1 "newChecker []"]
    by simp
  have c: "fst (setConstValueBinaryOp exShiftL 1 20 (newChecker [])) = OK
         \<and> ConstValue exShiftL (snd (setConstValueBinaryOp exShiftL 1 20 (newChecker []))) =
             Some 1048576"
    using C8_shift_count_range [OF k, THEN conjunct2, of 20 1 "newChecker []"] k'
    by (simp add: ConstValue_SetConstValue)
  show ?thesis using k a b c by blast
qed

section \<open>Type expressions: the built-in types bool and buf1\<close>

lemma TypeChecked_SetTypeChecked: "TypeChecked n (SetTypeChecked n q)"
proof -
  have "(x OR FlagsTypeChecked) AND FlagsTypeChecked = FlagsTypeChecked" for x :: "32 word"
    by (simp add: word_ao_absorbs)
  moreover have "FlagsTypeChecked \<noteq> 0" by (simp add: FlagsTypeChecked_def)
  ultimately show ?thesis by (simp add: TypeChecked_def SetTypeChecked_def)
qed

lemma heap_SetTypeChecked_other:
  "a \<noteq> addr n \<Longrightarrow> heap (SetTypeChecked n q) a = heap q a"
  by (simp add: SetTypeChecked_def)

text \<open>
  The type expressions \<open>bool[x..]\<close> and \<open>u8[x..]\<close>, whose lower bound is an
  identifier that is no local variable.
\<close>

definition exBoolBounded :: Node where
  "exBoolBounded = NewTypeExpr 20 ID_zero (ID KeyBool {})
     (Some (NewExpr 21 ID_zero (ID (KeyOther 7) {FlagsIdent}) None None None [])) None None"

definition exU8Bounded :: Node where
  "exU8Bounded = NewTypeExpr 20 ID_zero (ID KeyU8 {FlagsNumType})
     (Some (NewExpr 21 ID_zero (ID (KeyOther 7) {FlagsIdent}) None None None [])) None None"

text \<open>
  C10.  A type expression whose package-or-decorator has the zero key and whose name is
  \<open>bool\<close> or \<open>buf1\<close> (neither is a numeric type) is accepted and marked
  \<open>TypeChecked\<close>, whatever its bounds are: the check writes nothing but that flag, so a
  bound keeps the annotations it had (it is not type-checked) and need not be constant.
\<close>

theorem C10_bool_buf1_bounds_unchecked:
  assumes "Key (id0 n) = KeyInvalid"
    and "Key (id1 n) = KeyBool \<or> Key (id1 n) = KeyBuf1"
    and "\<not> ID_IsNumType (id1 n)"
    and "depth \<le> MaxTypeExprDepth"
  shows "fst (tcheckTypeExpr (Some n) depth q) = OK
       \<and> TypeChecked n (snd (tcheckTypeExpr (Some n) depth q))
       \<and> snd (tcheckTypeExpr (Some n) depth q) = SetTypeChecked n q
       \<and> (\<forall>b. (lhs n = Some b \<or> mhs n = Some b) \<and> addr b \<noteq> addr n \<longrightarrow>
            heap (snd (tcheckTypeExpr (Some n) depth q)) (addr b) = heap q (addr b)
          \<and> TypeChecked b (snd (tcheckTypeExpr (Some n) depth q)) = TypeChecked b q
          \<and> ConstValue b (snd (tcheckTypeExpr (Some n) depth q)) = ConstValue b q
          \<and> MType b (snd (tcheckTypeExpr (Some n) depth q)) = MType b q)"
proof -
  have d: "\<not> depth > MaxTypeExprDepth" using assms(4) by simp
  have e: "tcheckTypeExpr (Some n) depth q = (OK, SetTypeChecked n q)"
    using assms(1-3) d by (subst tcheckTypeExpr.simps) (simp add: Let_def)
  have h: "heap (SetTypeChecked n q) (addr b) = heap q (addr b)" if "addr b \<noteq> addr n" for b
    using that by (simp add: heap_SetTypeChecked_other)
  have "fst (tcheckTypeExpr (Some n) depth q) = OK"
    by (simp add: e)
  moreover have "TypeChecked n (snd (tcheckTypeExpr (Some n) depth q))"
    by (simp add: e TypeChecked_SetTypeChecked)
  moreover have "snd (tcheckTypeExpr (Some n) depth q) = SetTypeChecked n q"
    by (simp add: e)
  moreover have "\<forall>b. (lhs n = Some b \<or> mhs n = Some b) \<and> addr b \<noteq> addr n \<longrightarrow>
            heap (snd (tcheckTypeExpr (Some n) depth q)) (addr b) = heap q (addr b)
          \<and> TypeChecked b (snd (tcheckTypeExpr (Some n) depth q)) = TypeChecked b q
          \<and> ConstValue b (snd (tcheckTypeExpr (Some n) depth q)) = ConstValue b q
          \<and> MType b (snd (tcheckTypeExpr (Some n) depth q)) = MType b q"
    by (simp add: e h TypeChecked_def ConstValue_def MType_def)
  ultimately show ?thesis by blast
qed

text \<open>
  For contrast: the same bound on the numeric type \<open>u8\<close> is type-checked, and the
  check fails on the unknown identifier.
\<close>

lemma exU8Bounded_fails:
  "tcheckTypeExpr (Some exU8Bounded) 0 (newChecker []) = (Err UnknownIdent, newChecker [])"
  by (simp add: tcheckTypeExpr.simps tcheckBound.simps tcheckExpr.simps tcheckExprOther.simps
      exU8Bounded_def NewTypeExpr_def NewExpr_def MaxTypeExprDepth_def MaxExprDepth_def
      ID_zero_def ID_IsNumType_def IsNumLiteral_def IsIdent_def newChecker_def Let_def)

theorem C10_bool_buf1_bounds_unchecked_witness:
  "Key (id0 exBoolBounded) = KeyInvalid
   \<and> (Key (id1 exBoolBounded) = KeyBool \<or> Key (id1 exBoolBounded) = KeyBuf1)
   \<and> \<not> ID_IsNumType (id1 exBoolBounded)
   \<and> (0 :: 32 word) \<le> MaxTypeExprDepth
   \<and> lhs exBoolBounded \<noteq> None
   \<and> fst (tcheckTypeExpr (Some exBoolBounded) 0 (newChecker [])) = OK
   \<and> TypeChecked exBoolBounded (snd (tcheckTypeExpr (Some exBoolBounded) 0 (newChecker [])))
   \<and> \<not> TypeChecked (the (lhs exBoolBounded))
          (snd (tcheckTypeExpr (Some exBoolBounded) 0 (newChecker [])))
   \<and> ConstValue (the (lhs exBoolBounded))
          (snd (tcheckTypeExpr (Some exBoolBounded) 0 (newChecker []))) = None
   \<and> fst (tcheckTypeExpr (Some exU8Bounded) 0 (newChecker [])) = Err UnknownIdent"
proof -
  have h1: "Key (id0 exBoolBounded) = KeyInvalid"
    by (simp add: exBoolBounded_def NewTypeExpr_def ID_zero_def)
  have h2: "Key (id1 exBoolBounded) = KeyBool \<or> Key (id1 exBoolBounded) = KeyBuf1"
    by (simp add: exBoolBounded_def NewTypeExpr_def)
  have h3: "\<not> ID_IsNumType (id1 exBoolBounded)"
    by (simp add: exBoolBounded_def NewTypeExpr_def ID_IsNumType_def)
  have h4: "(0 :: 32 word) \<le> MaxTypeExprDepth" by simp
  have b: "lhs exBoolBounded =
             Some (NewExpr 21 ID_zero (ID (KeyOther 7) {FlagsIdent}) None None None [])"
    by (simp add: exBoolBounded_def NewTypeExpr_def)
  have a: "addr (NewExpr 21 ID_zero (ID (KeyOther 7) {FlagsIdent}) None None None []) \<noteq>
           addr exBoolBounded"
    by (simp add: exBoolBounded_def NewTypeExpr_def NewExpr_def)
  have i: "\<not> TypeChecked (NewExpr 21 ID_zero (ID (KeyOther 7) {FlagsIdent}) None None None [])
             (newChecker [])"
       "ConstValue (NewExpr 21 ID_zero (ID (KeyOther 7) {FlagsIdent}) None None None [])
             (newChecker []) = None"
    by (simp_all add: TypeChecked_def ConstValue_def newChecker_def annot0_def)
  note t = C10_bool_buf1_bounds_unchecked [OF h1 h2 h3 h4, of "newChecker []"]
  have r: "fst (tcheckTypeExpr (Some exBoolBounded) 0 (newChecker [])) = OK"
          "TypeChecked exBoolBounded (snd (tcheckTypeExpr (Some exBoolBounded) 0 (newChecker [])))"
    using t by blast+
  have "heap (snd (tcheckTypeExpr (Some exBoolBounded) 0 (newChecker [])))
            (addr (NewExpr 21 ID_zero (ID (KeyOther 7) {FlagsIdent}) None None None [])) =
          heap (newChecker [])
            (addr (NewExpr 21 ID_zero (ID (KeyOther 7) {FlagsIdent}) None None None []))"
    using t b a by blast
  then have u: "\<not> TypeChecked (the (lhs exBoolBounded))
                  (snd (tcheckTypeExpr (Some exBoolBounded) 0 (newChecker [])))"
       "ConstValue (the (lhs exBoolBounded))
                  (snd (tcheckTypeExpr (Some exBoolBounded) 0 (newChecker []))) = None"
    using i by (simp_all add: b TypeChecked_def ConstValue_def)
  have n: "lhs exBoolBounded \<noteq> None" by (simp add: b)
  have f: "fst (tcheckTypeExpr (Some exU8Bounded) 0 (newChecker [])) = Err UnknownIdent"
    by (simp add: exU8Bounded_fails)
  show ?thesis using h1 h2 h3 h4 n r u f by blast
qed

section \<open>Jumps: break and continue\<close>

text \<open>
  Modelled from the spec: the readers of the \<open>has_break\<close> and \<open>has_continue\<close> bits of
  a \<open>While\<close> and of the back-reference of a \<open>Jump\<close>.
\<close>

definition HasBreak :: "Node \<Rightarrow> checker \<Rightarrow> bool" where
  "HasBreak n q = hasBreak (heap q (addr n))"

definition HasContinue :: "Node \<Rightarrow> checker \<Rightarrow> bool" where
  "HasContinue n q = hasContinue (heap q (addr n))"

definition JumpTarget :: "Node \<Rightarrow> checker \<Rightarrow> Node option" where
  "JumpTarget n q = jumpTarget (heap q (addr n))"

text \<open>
  The target of a jump as the spec words it: with a label, the innermost (last pushed)
  entry of the stack whose label matches; without one, the innermost entry.
\<close>

definition innermostTarget :: "ID \<Rightarrow> Node list \<Rightarrow> Node option" where
  "innermostTarget label ts =
     (if label \<noteq> ID_zero then find (\<lambda>w. id1 w = label) (rev ts)
      else if ts = [] then None else Some (last ts))"

lemma searchJumpTargets_find:
  "i \<le> length ts \<Longrightarrow>
   searchJumpTargets ts i x = find (\<lambda>w. id1 w = x) (rev (take i ts))"
proof (induction i)
  case 0
  then show ?case by simp
next
  case (Suc i)
  then have "take (Suc i) ts = take i ts @ [ts ! i]"
    by (simp add: take_Suc_conv_app_nth)
  then show ?case using Suc by simp
qed

lemma findJumpTarget_innermost:
  "findJumpTarget n q = innermostTarget (id1 n) (jumpTargets q)"
  by (simp add: findJumpTarget_def innermostTarget_def searchJumpTargets_find last_conv_nth)

lemma find_rev_innermost:
  "find P (rev ts) = Some w \<Longrightarrow>
   \<exists>pre post. ts = pre @ w # post \<and> P w \<and> (\<forall>x\<in>set post. \<not> P x)"
proof (induction ts rule: rev_induct)
  case Nil
  then show ?case by simp
next
  case (snoc x xs)
  show ?case
  proof (cases "P x")
    case True
    with snoc.prems have "w = x" by simp
    then have "xs @ [x] = xs @ w # [] \<and> P w \<and> (\<forall>y\<in>set []. \<not> P y)"
      using True by simp
    then show ?thesis by blast
  next
    case False
    with snoc.prems have "find P (rev xs) = Some w" by simp
    from snoc.IH [OF this] obtain pre post where
      p: "xs = pre @ w # post" "P w" "\<forall>y\<in>set post. \<not> P y" by blast
    have "xs @ [x] = pre @ w # (post @ [x]) \<and> P w \<and> (\<forall>y\<in>set (post @ [x]). \<not> P y)"
      using p False by simp
    then show ?thesis by blast
  qed
qed

lemma tcheckStatement_KJump:
  "kind n = KJump \<Longrightarrow>
   tcheckStatement n q =
     (case innermostTarget (id1 n) (jumpTargets q) of
        None \<Rightarrow> (Err NoJumpTarget, setErrFilenameLine n q)
      | Some w \<Rightarrow>
          (OK, SetTypeChecked n (SetJumpTarget n (Some w)
                 (if Key (id0 n) = KeyBreak then SetHasBreak w (setErrFilenameLine n q)
                  else SetHasContinue w (setErrFilenameLine n q)))))"
  by (subst tcheckStatement.simps)
     (simp add: Let_def tcheckJump_def findJumpTarget_innermost setErrFilenameLine_def
        split: option.splits)

lemma innermostTarget_Some:
  assumes "innermostTarget x ts = Some w"
  shows "w \<in> set ts"
    and "x \<noteq> ID_zero \<longrightarrow>
           (\<exists>pre post. ts = pre @ w # post \<and> id1 w = x \<and> (\<forall>y\<in>set post. id1 y \<noteq> x))"
    and "x = ID_zero \<longrightarrow> ts \<noteq> [] \<and> w = last ts"
proof -
  show "x \<noteq> ID_zero \<longrightarrow>
           (\<exists>pre post. ts = pre @ w # post \<and> id1 w = x \<and> (\<forall>y\<in>set post. id1 y \<noteq> x))"
  proof
    assume "x \<noteq> ID_zero"
    then have "find (\<lambda>w. id1 w = x) (rev ts) = Some w"
      using assms by (simp add: innermostTarget_def)
    from find_rev_innermost [OF this]
    show "\<exists>pre post. ts = pre @ w # post \<and> id1 w = x \<and> (\<forall>y\<in>set post. id1 y \<noteq> x)"
      by blast
  qed
  show "x = ID_zero \<longrightarrow> ts \<noteq> [] \<and> w = last ts"
    using assms by (auto simp: innermostTarget_def split: if_splits)
  show "w \<in> set ts"
  proof (cases "x = ID_zero")
    case True
    then show ?thesis using assms by (auto simp: innermostTarget_def split: if_splits)
  next
    case False
    then have "find (\<lambda>w. id1 w = x) (rev ts) = Some w"
      using assms by (simp add: innermostTarget_def)
    from find_rev_innermost [OF this] obtain pre post where "ts = pre @ w # post"
      by blast
    then show ?thesis by simp
  qed
qed

lemma jump_observables:
  "JumpTarget n (SetTypeChecked n (SetJumpTarget n x q)) = x"
  "HasBreak w (SetTypeChecked n (SetJumpTarget n x (SetHasBreak w q)))"
  "HasContinue w (SetTypeChecked n (SetJumpTarget n x (SetHasContinue w q)))"
  by (simp_all add: JumpTarget_def HasBreak_def HasContinue_def SetTypeChecked_def
      SetJumpTarget_def SetHasBreak_def SetHasContinue_def)

text \<open>
  C4.  Checking a \<open>break\<close> or \<open>continue\<close> statement: when the stack of enclosing
  loops has no target (no entry with the label, or no entry at all for a jump without
  label) the check fails with \<open>NoJumpTarget\<close>.  Otherwise it succeeds; the target
  \<open>w\<close> is on the stack, and is the innermost entry with the jump's label (no entry
  pushed after it has that label) or, without a label, the innermost entry; afterwards the
  jump node records \<open>w\<close> as its target, \<open>w\<close> has its \<open>has_break\<close> bit (for
  \<open>break\<close>) or its \<open>has_continue\<close> bit (otherwise), and the jump node is
  \<open>TypeChecked\<close>.
\<close>

theorem C4_jump_target:
  assumes "kind n = KJump"
  shows "(innermostTarget (id1 n) (jumpTargets q) = None \<longrightarrow>
            tcheckStatement n q = (Err NoJumpTarget, setErrFilenameLine n q))
       \<and> (\<forall>w. innermostTarget (id1 n) (jumpTargets q) = Some w \<longrightarrow>
            fst (tcheckStatement n q) = OK
          \<and> JumpTarget n (snd (tcheckStatement n q)) = Some w
          \<and> (if Key (id0 n) = KeyBreak then HasBreak w (snd (tcheckStatement n q))
              else HasContinue w (snd (tcheckStatement n q)))
          \<and> TypeChecked n (snd (tcheckStatement n q))
          \<and> w \<in> set (jumpTargets q)
          \<and> (id1 n \<noteq> ID_zero \<longrightarrow>
                (\<exists>pre post. jumpTargets q = pre @ w # post \<and> id1 w = id1 n \<and>
                   (\<forall>y\<in>set post. id1 y \<noteq> id1 n)))
          \<and> (id1 n = ID_zero \<longrightarrow> w = last (jumpTargets q)))"
proof (intro conjI allI impI)
  assume "innermostTarget (id1 n) (jumpTargets q) = None"
  then show "tcheckStatement n q = (Err NoJumpTarget, setErrFilenameLine n q)"
    using assms by (simp add: tcheckStatement_KJump)
next
  fix w assume w: "innermostTarget (id1 n) (jumpTargets q) = Some w"
  let ?q0 = "setErrFilenameLine n q"
  have e: "tcheckStatement n q =
          (OK, SetTypeChecked n (SetJumpTarget n (Some w)
                 (if Key (id0 n) = KeyBreak then SetHasBreak w ?q0
                  else SetHasContinue w ?q0)))"
    using assms w by (simp add: tcheckStatement_KJump)
  show "fst (tcheckStatement n q) = OK" by (simp add: e)
  show "JumpTarget n (snd (tcheckStatement n q)) = Some w"
    by (simp only: e snd_conv jump_observables)
  show "if Key (id0 n) = KeyBreak then HasBreak w (snd (tcheckStatement n q))
        else HasContinue w (snd (tcheckStatement n q))"
    by (simp add: e jump_observables)
  show "TypeChecked n (snd (tcheckStatement n q))"
    by (simp only: e snd_conv TypeChecked_SetTypeChecked)
  show "w \<in> set (jumpTargets q)" using innermostTarget_Some(1) [OF w] .
  show "\<exists>pre post. jumpTargets q = pre @ w # post \<and> id1 w = id1 n \<and>
          (\<forall>y\<in>set post. id1 y \<noteq> id1 n)" if "id1 n \<noteq> ID_zero"
    using innermostTarget_Some(2) [OF w] that by blast
  show "w = last (jumpTargets q)" if "id1 n = ID_zero"
    using innermostTarget_Some(3) [OF w] that by blast
qed

text \<open>
  \<open>while:outer true { while true { break:outer } }\<close>: the two loops and the jump.
\<close>

definition exLblOuter :: ID where "exLblOuter = ID (KeyOther 30) {FlagsIdent}"

definition exTrue :: "addr \<Rightarrow> Node" where
  "exTrue a = NewExpr a ID_zero (ID KeyTrue {}) None None None []"

definition exBreakOuter :: Node where
  "exBreakOuter = NewJump 33 (ID KeyBreak {}) exLblOuter"

definition exInnerWhile :: Node where
  "exInnerWhile = NewWhile 32 ID_zero (exTrue 35) [] [exBreakOuter]"

definition exOuterWhile :: Node where
  "exOuterWhile = NewWhile 31 exLblOuter (exTrue 34) [] [exInnerWhile]"

theorem C4_jump_target_witness:
  "kind exBreakOuter = KJump
   \<and> innermostTarget (id1 exBreakOuter) [exOuterWhile, exInnerWhile] = Some exOuterWhile
   \<and> fst (tcheckStatement exBreakOuter
            ((newChecker [])\<lparr>jumpTargets := [exOuterWhile, exInnerWhile]\<rparr>)) = OK
   \<and> JumpTarget exBreakOuter (snd (tcheckStatement exBreakOuter
            ((newChecker [])\<lparr>jumpTargets := [exOuterWhile, exInnerWhile]\<rparr>))) = Some exOuterWhile
   \<and> HasBreak exOuterWhile (snd (tcheckStatement exBreakOuter
            ((newChecker [])\<lparr>jumpTargets := [exOuterWhile, exInnerWhile]\<rparr>)))
   \<and> TypeChecked exBreakOuter (snd (tcheckStatement exBreakOuter
            ((newChecker [])\<lparr>jumpTargets := [exOuterWhile, exInnerWhile]\<rparr>)))"
proof -
  let ?q = "(newChecker [])\<lparr>jumpTargets := [exOuterWhile, exInnerWhile]\<rparr>"
  have k: "kind exBreakOuter = KJump" by (simp add: exBreakOuter_def NewJump_def)
  have b: "Key (id0 exBreakOuter) = KeyBreak" by (simp add: exBreakOuter_def NewJump_def)
  have t: "innermostTarget (id1 exBreakOuter) (jumpTargets ?q) = Some exOuterWhile"
    by (simp add: innermostTarget_def exBreakOuter_def NewJump_def exOuterWhile_def
        exInnerWhile_def NewWhile_def exLblOuter_def ID_zero_def)
  from C4_jump_target [OF k, of ?q, THEN conjunct2, rule_format, OF t]
  show ?thesis using k b t by simp
qed

section \<open>Assignments\<close>

text \<open>
  C5.  A plain assignment \<open>lhs = rhs\<close> whose two sides type-check, with types \<open>L\<close> and
  \<open>R\<close>: the check is accepted exactly when \<open>R\<close> is Ideal and \<open>L\<close> is a numeric
  type, or \<open>L\<close> equals \<open>R\<close> ignoring refinements; otherwise it fails with
  \<open>NotAssignable\<close>.  The state is the one the two expression checks leave.
\<close>

theorem C5_plain_assign:
  assumes "Key (id0 n) = KeyEq"
    and "lhs n = Some l" and "rhs n = Some r"
    and "tcheckExpr (Some l) 0 q = (OK, q1)"
    and "tcheckExpr (Some r) 0 q1 = (OK, q2)"
    and "MType l q2 = Some L" and "MType r q2 = Some R"
  shows "snd (tcheckAssign n q) = q2
       \<and> (fst (tcheckAssign n q) = OK \<longleftrightarrow>
            (ptrEq (Some R) (Some TypeExprIdeal) \<and> IsNumType L) \<or>
            EqIgnoringRefinements (Some L) (Some R))
       \<and> (fst (tcheckAssign n q) \<noteq> OK \<longrightarrow> fst (tcheckAssign n q) = Err NotAssignable)"
proof -
  have e: "tcheckAssign n q = (assignable n (Some L) (Some R), q2)"
    using assms by (simp add: tcheckAssign_def)
  have a: "assignable n (Some L) (Some R) =
             (if (ptrEq (Some R) (Some TypeExprIdeal) \<and> IsNumType L) \<or>
                 EqIgnoringRefinements (Some L) (Some R)
              then OK else Err NotAssignable)"
    using assms(1) by (simp add: assignable_def TypeExpr_IsNumType_def)
  show ?thesis by (simp add: e a)
qed

text \<open>
  \<open>x = 3\<close> and \<open>x = y\<close>, for the local variables \<open>x\<close> of type \<open>u8\<close> and \<open>y\<close> of
  type \<open>bool\<close>.
\<close>

definition exIdX :: ID where "exIdX = ID (KeyOther 40) {FlagsIdent}"
definition exIdY :: ID where "exIdY = ID (KeyOther 46) {FlagsIdent}"
definition exLit3 :: ID where "exLit3 = ID (KeyOther 42) {FlagsNumLiteral}"

definition exTypeU8 :: Node where
  "exTypeU8 = NewTypeExpr 41 ID_zero (ID KeyU8 {FlagsNumType}) None None None"

definition exTypeBool :: Node where
  "exTypeBool = NewTypeExpr 47 ID_zero (ID KeyBool {}) None None None"

definition exAssignChecker :: checker where
  "exAssignChecker =
     (newChecker [(''3'', exLit3)])
       \<lparr>LocalVars := Some [exIdX \<mapsto> Some exTypeU8, exIdY \<mapsto> Some exTypeBool]\<rparr>"

definition exAssignLit :: Node where
  "exAssignLit = NewAssign 43 (ID KeyEq {})
     (NewExpr 44 ID_zero exIdX None None None [])
     (NewExpr 45 ID_zero exLit3 None None None [])"

definition exAssignBool :: Node where
  "exAssignBool = NewAssign 43 (ID KeyEq {})
     (NewExpr 44 ID_zero exIdX None None None [])
     (NewExpr 45 ID_zero exIdY None None None [])"

lemmas ex_assign_defs =
  exAssignLit_def exAssignBool_def exAssignChecker_def exIdX_def exIdY_def exLit3_def
  exTypeU8_def exTypeBool_def NewAssign_def NewExpr_def NewTypeExpr_def newChecker_def
  annot0_def ID_zero_def

lemma SetString_3: "SetString ''3'' = Some 3"
  by (simp add: SetString_def nat_scan_def scanFinish_def digitVal_def Let_def)

lemma exAssignLit_lhs:
  "tcheckExpr (lhs exAssignLit) 0 exAssignChecker =
     (OK, SetTypeChecked (NewExpr 44 ID_zero exIdX None None None [])
            (SetMType (NewExpr 44 ID_zero exIdX None None None []) (Some exTypeU8)
               exAssignChecker))"
  by (simp add: tcheckExpr.simps tcheckExprOther.simps ex_assign_defs MaxExprDepth_def
      IsNumLiteral_def IsIdent_def Let_def)

lemma exAssignBool_lhs:
  "tcheckExpr (lhs exAssignBool) 0 exAssignChecker =
     (OK, SetTypeChecked (NewExpr 44 ID_zero exIdX None None None [])
            (SetMType (NewExpr 44 ID_zero exIdX None None None []) (Some exTypeU8)
               exAssignChecker))"
  by (simp add: tcheckExpr.simps tcheckExprOther.simps ex_assign_defs MaxExprDepth_def
      IsNumLiteral_def IsIdent_def Let_def)

lemma exAssignLit_rhs:
  "tcheckExpr (rhs exAssignLit) 0
     (SetTypeChecked (NewExpr 44 ID_zero exIdX None None None [])
        (SetMType (NewExpr 44 ID_zero exIdX None None None []) (Some exTypeU8)
           exAssignChecker)) =
   (OK, SetTypeChecked (NewExpr 45 ID_zero exLit3 None None None [])
          (SetMType (NewExpr 45 ID_zero exLit3 None None None []) (Some TypeExprIdeal)
            (SetConstValue (NewExpr 45 ID_zero exLit3 None None None []) (Some 3)
              (SetTypeChecked (NewExpr 44 ID_zero exIdX None None None [])
                 (SetMType (NewExpr 44 ID_zero exIdX None None None []) (Some exTypeU8)
                    exAssignChecker)))))"
  by (simp add: tcheckExpr.simps tcheckExprOther.simps ex_assign_defs MaxExprDepth_def
      IsNumLiteral_def IsIdent_def Let_def String_def SetString_3
      SetTypeChecked_def SetMType_def SetConstValue_def)

lemma exAssignBool_rhs:
  "tcheckExpr (rhs exAssignBool) 0
     (SetTypeChecked (NewExpr 44 ID_zero exIdX None None None [])
        (SetMType (NewExpr 44 ID_zero exIdX None None None []) (Some exTypeU8)
           exAssignChecker)) =
   (OK, SetTypeChecked (NewExpr 45 ID_zero exIdY None None None [])
          (SetMType (NewExpr 45 ID_zero exIdY None None None []) (Some exTypeBool)
              (SetTypeChecked (NewExpr 44 ID_zero exIdX None None None [])
                 (SetMType (NewExpr 44 ID_zero exIdX None None None []) (Some exTypeU8)
                    exAssignChecker))))"
  by (simp add: tcheckExpr.simps tcheckExprOther.simps ex_assign_defs MaxExprDepth_def
      IsNumLiteral_def IsIdent_def Let_def SetTypeChecked_def SetMType_def)

theorem C5_plain_assign_witness:
  "Key (id0 exAssignLit) = KeyEq \<and> Key (id0 exAssignBool) = KeyEq
   \<and> fst (tcheckExpr (lhs exAssignLit) 0 exAssignChecker) = OK
   \<and> fst (tcheckExpr (rhs exAssignLit) 0
             (snd (tcheckExpr (lhs exAssignLit) 0 exAssignChecker))) = OK
   \<and> fst (tcheckExpr (lhs exAssignBool) 0 exAssignChecker) = OK
   \<and> fst (tcheckExpr (rhs exAssignBool) 0
             (snd (tcheckExpr (lhs exAssignBool) 0 exAssignChecker))) = OK
   \<and> fst (tcheckAssign exAssignLit exAssignChecker) = OK
   \<and> fst (tcheckAssign exAssignBool exAssignChecker) = Err NotAssignable"
proof -
  let ?l = "NewExpr 44 ID_zero exIdX None None None []"
  let ?r = "NewExpr 45 ID_zero exLit3 None None None []"
  let ?r' = "NewExpr 45 ID_zero exIdY None None None []"
  let ?q1 = "SetTypeChecked ?l (SetMType ?l (Some exTypeU8) exAssignChecker)"
  let ?q2 = "SetTypeChecked ?r (SetMType ?r (Some TypeExprIdeal)
               (SetConstValue ?r (Some 3) ?q1))"
  let ?q2' = "SetTypeChecked ?r' (SetMType ?r' (Some exTypeBool) ?q1)"
  have k: "Key (id0 exAssignLit) = KeyEq" "Key (id0 exAssignBool) = KeyEq"
    by (simp_all add: exAssignLit_def exAssignBool_def NewAssign_def)
  have c: "lhs exAssignLit = Some ?l" "rhs exAssignLit = Some ?r"
          "lhs exAssignBool = Some ?l" "rhs exAssignBool = Some ?r'"
    by (simp_all add: exAssignLit_def exAssignBool_def NewAssign_def)
  have l1: "tcheckExpr (Some ?l) 0 exAssignChecker = (OK, ?q1)"
    using exAssignLit_lhs by (simp only: c)
  have r1: "tcheckExpr (Some ?r) 0 ?q1 = (OK, ?q2)"
    using exAssignLit_rhs by (simp only: c)
  have r2: "tcheckExpr (Some ?r') 0 ?q1 = (OK, ?q2')"
    using exAssignBool_rhs by (simp only: c)
  have m1: "MType ?l ?q2 = Some exTypeU8" "MType ?r ?q2 = Some TypeExprIdeal"
    by (simp_all add: MType_def SetTypeChecked_def SetMType_def SetConstValue_def NewExpr_def)
  have m2: "MType ?l ?q2' = Some exTypeU8" "MType ?r' ?q2' = Some exTypeBool"
    by (simp_all add: MType_def SetTypeChecked_def SetMType_def NewExpr_def)
  have a1: "ptrEq (Some TypeExprIdeal) (Some TypeExprIdeal) \<and> IsNumType exTypeU8"
    by (simp add: ptrEq_def IsNumType_def exTypeU8_def NewTypeExpr_def ID_IsNumType_def)
  have a2: "\<not> ((ptrEq (Some exTypeBool) (Some TypeExprIdeal) \<and> IsNumType exTypeU8) \<or>
              EqIgnoringRefinements (Some exTypeU8) (Some exTypeBool))"
    by (simp add: ptrEq_def exTypeU8_def exTypeBool_def NewTypeExpr_def TypeExprIdeal_def
        EqIgnoringRefinements_def)
  have w1: "fst (tcheckAssign exAssignLit exAssignChecker) = OK"
    using C5_plain_assign [OF k(1) c(1) c(2) l1 r1 m1] a1 by blast
  have w2: "fst (tcheckAssign exAssignBool exAssignChecker) = Err NotAssignable"
    using C5_plain_assign [OF k(2) c(3) c(4) l1 r2 m2] a2 by blast
  show ?thesis
    using k w1 w2 l1 r1 r2 by (simp add: c)
qed

section \<open>Numeric literals\<close>

text \<open>
  The integer that a numeric literal denotes, in the spec's words: a string of digits of
  base \<open>b\<close> denotes the sum of its digits times the powers of \<open>b\<close>, the last digit
  counting units; the base is 16 after the prefix \<open>0x\<close>, 2 after \<open>0b\<close>, 8 after a
  leading \<open>0\<close>, and 10 otherwise.
\<close>

definition digitsValue :: "nat \<Rightarrow> string \<Rightarrow> nat" where
  "digitsValue b ds = (\<Sum>i<length ds. digitVal (ds ! i) * b ^ (length ds - 1 - i))"

definition isDigits :: "nat \<Rightarrow> string \<Rightarrow> bool" where
  "isDigits b ds = (ds \<noteq> [] \<and> (\<forall>c\<in>set ds. digitVal c < b))"

definition literalValue :: "string \<Rightarrow> int option" where
  "literalValue s =
     (case s of
        [] \<Rightarrow> None
      | [c] \<Rightarrow> if isDigits 10 [c] then Some (int (digitsValue 10 [c])) else None
      | c0 # c1 # ds \<Rightarrow>
          if c0 = CHR ''0'' \<and> (c1 = CHR ''x'' \<or> c1 = CHR ''X'') then
            (if isDigits 16 ds then Some (int (digitsValue 16 ds)) else None)
          else if c0 = CHR ''0'' \<and> (c1 = CHR ''b'' \<or> c1 = CHR ''B'') then
            (if isDigits 2 ds then Some (int (digitsValue 2 ds)) else None)
          else if c0 = CHR ''0'' then
            (if isDigits 8 (c1 # ds) then Some (int (digitsValue 8 (c1 # ds))) else None)
          else if isDigits 10 s then Some (int (digitsValue 10 s)) else None)"

lemma digitsValue_Nil [simp]: "digitsValue b [] = 0"
  by (simp add: digitsValue_def)

lemma digitsValue_Cons:
  "digitsValue b (c # cs) = digitVal c * b ^ length cs + digitsValue b cs"
  by (simp add: digitsValue_def sum.lessThan_Suc_shift del: sum.lessThan_Suc)

lemma scanDigits_all:
  "\<forall>c\<in>set ds. digitVal c < b \<Longrightarrow>
   scanDigits b ds acc count = (acc * b ^ length ds + digitsValue b ds, count + length ds, [])"
proof (induction ds arbitrary: acc count)
  case Nil
  then show ?case by simp
next
  case (Cons c cs)
  then show ?case
    by (simp add: digitsValue_Cons algebra_simps)
qed

lemma scanFinish_isDigits:
  "isDigits b ds \<Longrightarrow> scanFinish b' (scanDigits b ds 0 0) = Some (digitsValue b ds, [])"
  by (simp add: isDigits_def scanDigits_all scanFinish_def)

lemma digit_not_sign: "digitVal c < 37 \<Longrightarrow> c \<noteq> CHR ''-'' \<and> c \<noteq> CHR ''+''"
  by (auto simp: digitVal_def Let_def)

lemma digit0: "digitVal CHR ''0'' = 0"
  by (simp add: digitVal_def)

lemma isDigits_hd: "isDigits b (c # cs) \<Longrightarrow> b \<le> 37 \<Longrightarrow> c \<noteq> CHR ''-'' \<and> c \<noteq> CHR ''+''"
  using digit_not_sign [of c] by (auto simp: isDigits_def)

lemma prefix_not_digit8:
  "isDigits 8 (c # cs) \<Longrightarrow>
   c \<noteq> CHR ''x'' \<and> c \<noteq> CHR ''X'' \<and> c \<noteq> CHR ''b'' \<and> c \<noteq> CHR ''B''"
  by (auto simp: isDigits_def digitVal_def Let_def)

lemma SetString_literalValue:
  assumes "literalValue s = Some z"
  shows "SetString s = Some z"
proof (cases s)
  case Nil
  then show ?thesis using assms by (simp add: literalValue_def)
next
  case (Cons c0 t)
  note s = this
  show ?thesis
  proof (cases t)
    case Nil
    with s assms have d: "isDigits 10 [c0]" and z: "z = int (digitsValue 10 [c0])"
      by (auto simp: literalValue_def split: if_splits)
    have ns: "c0 \<noteq> CHR ''-'' \<and> c0 \<noteq> CHR ''+''" using isDigits_hd [OF d] by simp
    show ?thesis
    proof (cases "c0 = CHR ''0''")
      case True
      then show ?thesis using s Nil z
        by (simp add: SetString_def nat_scan_def digitsValue_Cons digit0)
    next
      case False
      then show ?thesis using s Nil z ns scanFinish_isDigits [OF d, of 10]
        by (simp add: SetString_def nat_scan_def)
    qed
  next
    case (Cons c1 ds)
    note t = this
    consider (hex) "c0 = CHR ''0''" "c1 = CHR ''x'' \<or> c1 = CHR ''X''"
      | (bin) "c0 = CHR ''0''" "\<not> (c1 = CHR ''x'' \<or> c1 = CHR ''X'')"
              "c1 = CHR ''b'' \<or> c1 = CHR ''B''"
      | (oct) "c0 = CHR ''0''" "\<not> (c1 = CHR ''x'' \<or> c1 = CHR ''X'')"
              "\<not> (c1 = CHR ''b'' \<or> c1 = CHR ''B'')"
      | (dec) "c0 \<noteq> CHR ''0''"
      by blast
    then show ?thesis
    proof cases
      case hex
      with s t assms have d: "isDigits 16 ds" and z: "z = int (digitsValue 16 ds)"
        by (auto simp: literalValue_def split: if_splits)
      have "ds \<noteq> []" using d by (simp add: isDigits_def)
      then show ?thesis using s t hex z scanFinish_isDigits [OF d, of 16]
        by (auto simp: SetString_def nat_scan_def)
    next
      case bin
      with s t assms have d: "isDigits 2 ds" and z: "z = int (digitsValue 2 ds)"
        by (auto simp: literalValue_def split: if_splits)
      have "ds \<noteq> []" using d by (simp add: isDigits_def)
      then show ?thesis using s t bin z scanFinish_isDigits [OF d, of 2]
        by (auto simp: SetString_def nat_scan_def)
    next
      case oct
      with s t assms have d: "isDigits 8 (c1 # ds)" and z: "z = int (digitsValue 8 (c1 # ds))"
        by (auto simp: literalValue_def split: if_splits)
      show ?thesis using s t oct z scanFinish_isDigits [OF d, of 8]
        by (simp add: SetString_def nat_scan_def)
    next
      case dec
      with s t assms have d: "isDigits 10 (c0 # c1 # ds)"
        and z: "z = int (digitsValue 10 (c0 # c1 # ds))"
        by (auto simp: literalValue_def split: if_splits)
      have ns: "c0 \<noteq> CHR ''-'' \<and> c0 \<noteq> CHR ''+''" using isDigits_hd [OF d] by simp
      show ?thesis using s t dec z ns scanFinish_isDigits [OF d, of 10]
        by (simp add: SetString_def nat_scan_def)
    qed
  qed
qed

lemma tcheckExpr_numLiteral:
  assumes "id0 n = ID_zero" and "IsNumLiteral (id1 n)" and "depth \<le> MaxExprDepth"
  shows "tcheckExpr (Some n) depth q =
     (case SetString (String (id1 n) (tm q)) of
        None \<Rightarrow> (Err InvalidNumericLiteral, q)
      | Some z \<Rightarrow>
          (OK, SetTypeChecked n (SetMType n (Some TypeExprIdeal) (SetConstValue n (Some z) q))))"
proof -
  have d: "\<not> depth > MaxExprDepth" using assms(3) by simp
  show ?thesis
    using assms(1,2) d
    by (subst tcheckExpr.simps, subst tcheckExprOther.simps)
       (simp add: Let_def ID_zero_def split: option.splits)
qed

lemma literal_observables:
  "ConstValue n (SetTypeChecked n (SetMType n t (SetConstValue n c q))) = c"
  "MType n (SetTypeChecked n (SetMType n t (SetConstValue n c q))) = t"
  by (simp_all add: ConstValue_def MType_def SetTypeChecked_def SetMType_def SetConstValue_def)

text \<open>
  C9.  Checking a leaf expression whose \<open>id1\<close> is a numeric literal: when the lexeme of
  the literal denotes the integer \<open>z\<close> (decimal, \<open>0x\<close> hex, \<open>0\<close> octal, \<open>0b\<close>
  binary), the check succeeds and afterwards the node's constant value is \<open>z\<close>, its type
  is Ideal and it is \<open>TypeChecked\<close>; the same holds for whatever \<open>SetString\<close> parses
  the lexeme to; and when \<open>SetString\<close> cannot parse the lexeme the check fails with
  \<open>InvalidNumericLiteral\<close> and changes nothing.
\<close>

theorem C9_numeric_literal:
  assumes "id0 n = ID_zero" and "IsNumLiteral (id1 n)" and "depth \<le> MaxExprDepth"
  shows "(\<forall>z. literalValue (String (id1 n) (tm q)) = Some z \<or>
              SetString (String (id1 n) (tm q)) = Some z \<longrightarrow>
            fst (tcheckExpr (Some n) depth q) = OK
          \<and> ConstValue n (snd (tcheckExpr (Some n) depth q)) = Some z
          \<and> MType n (snd (tcheckExpr (Some n) depth q)) = Some TypeExprIdeal
          \<and> TypeChecked n (snd (tcheckExpr (Some n) depth q)))
       \<and> (SetString (String (id1 n) (tm q)) = None \<longrightarrow>
            tcheckExpr (Some n) depth q = (Err InvalidNumericLiteral, q))"
proof (intro conjI allI impI)
  assume "SetString (String (id1 n) (tm q)) = None"
  then show "tcheckExpr (Some n) depth q = (Err InvalidNumericLiteral, q)"
    by (simp add: tcheckExpr_numLiteral [OF assms])
next
  fix z
  assume "literalValue (String (id1 n) (tm q)) = Some z \<or>
          SetString (String (id1 n) (tm q)) = Some z"
  then have p: "SetString (String (id1 n) (tm q)) = Some z"
    using SetString_literalValue by blast
  have e: "tcheckExpr (Some n) depth q =
      (OK, SetTypeChecked n (SetMType n (Some TypeExprIdeal) (SetConstValue n (Some z) q)))"
    by (simp add: tcheckExpr_numLiteral [OF assms] p)
  show "fst (tcheckExpr (Some n) depth q) = OK" by (simp add: e)
  show "ConstValue n (snd (tcheckExpr (Some n) depth q)) = Some z"
    by (simp only: e snd_conv literal_observables)
  show "MType n (snd (tcheckExpr (Some n) depth q)) = Some TypeExprIdeal"
    by (simp only: e snd_conv literal_observables)
  show "TypeChecked n (snd (tcheckExpr (Some n) depth q))"
    by (simp only: e snd_conv TypeChecked_SetTypeChecked)
qed

text \<open>The literals \<open>0x1F\<close> and \<open>08\<close>.\<close>

definition exLitHex :: ID where "exLitHex = ID (KeyOther 50) {FlagsNumLiteral}"
definition exLitBad :: ID where "exLitBad = ID (KeyOther 51) {FlagsNumLiteral}"

definition exLitMap :: Map where
  "exLitMap = [(''0x1F'', exLitHex), (''08'', exLitBad)]"

definition exHexExpr :: Node where
  "exHexExpr = NewExpr 52 ID_zero exLitHex None None None []"

definition exBadExpr :: Node where
  "exBadExpr = NewExpr 53 ID_zero exLitBad None None None []"

lemma exLit_strings:
  "String (id1 exHexExpr) (tm (newChecker exLitMap)) = ''0x1F''"
  "String (id1 exBadExpr) (tm (newChecker exLitMap)) = ''08''"
  by (simp_all add: String_def exLitMap_def exHexExpr_def exBadExpr_def NewExpr_def
      newChecker_def exLitHex_def exLitBad_def)

lemma exLit_values:
  "literalValue ''0x1F'' = Some 31" "SetString ''08'' = None"
  by (simp_all add: literalValue_def isDigits_def digitsValue_def digitVal_def Let_def
      SetString_def nat_scan_def scanFinish_def lessThan_Suc)

theorem C9_numeric_literal_witness:
  "id0 exHexExpr = ID_zero \<and> IsNumLiteral (id1 exHexExpr) \<and> (0 :: 32 word) \<le> MaxExprDepth
   \<and> id0 exBadExpr = ID_zero \<and> IsNumLiteral (id1 exBadExpr)
   \<and> literalValue (String (id1 exHexExpr) (tm (newChecker exLitMap))) = Some 31
   \<and> fst (tcheckExpr (Some exHexExpr) 0 (newChecker exLitMap)) = OK
   \<and> ConstValue exHexExpr (snd (tcheckExpr (Some exHexExpr) 0 (newChecker exLitMap))) = Some 31
   \<and> MType exHexExpr (snd (tcheckExpr (Some exHexExpr) 0 (newChecker exLitMap))) =
       Some TypeExprIdeal
   \<and> TypeChecked exHexExpr (snd (tcheckExpr (Some exHexExpr) 0 (newChecker exLitMap)))
   \<and> SetString (String (id1 exBadExpr) (tm (newChecker exLitMap))) = None
   \<and> tcheckExpr (Some exBadExpr) 0 (newChecker exLitMap) =
       (Err InvalidNumericLiteral, newChecker exLitMap)"
proof -
  have h: "id0 exHexExpr = ID_zero" "IsNumLiteral (id1 exHexExpr)"
          "id0 exBadExpr = ID_zero" "IsNumLiteral (id1 exBadExpr)"
    by (simp_all add: exHexExpr_def exBadExpr_def NewExpr_def IsNumLiteral_def
        exLitHex_def exLitBad_def)
  have d: "(0 :: 32 word) \<le> MaxExprDepth" by simp
  have v: "literalValue (String (id1 exHexExpr) (tm (newChecker exLitMap))) = Some 31"
    by (simp only: exLit_strings exLit_values)
  have b: "SetString (String (id1 exBadExpr) (tm (newChecker exLitMap))) = None"
    by (simp only: exLit_strings exLit_values)
  note t1 = C9_numeric_literal [OF h(1) h(2) d, of "newChecker exLitMap", THEN conjunct1,
              rule_format, of 31]
  note t2 = C9_numeric_literal [OF h(3) h(4) d, of "newChecker exLitMap", THEN conjunct2,
              rule_format, OF b]
  show ?thesis using h d v b t1 t2 by blast
qed

section \<open>The variable pre-pass and else-if chains\<close>

text \<open>
  \<open>if true { } else if true { var x bool }\<close> and \<open>if true { var x bool }\<close>.
\<close>

definition exVarX :: Node where
  "exVarX = NewVar 64 exIdX exTypeBool None"

definition exIfElseIfVar :: Node where
  "exIfElseIfVar = NewIf 60 (exTrue 61) (Some (NewIf 62 (exTrue 63) None [exVarX] [])) [] []"

definition exIfVar :: Node where
  "exIfVar = NewIf 60 (exTrue 61) None [exVarX] []"

lemmas ex_if_defs =
  exIfElseIfVar_def exIfVar_def exVarX_def exTrue_def exIdX_def exTypeBool_def
  NewIf_def NewVar_def NewExpr_def NewTypeExpr_def newChecker_def annot0_def ID_zero_def

lemma exIfElseIfVar_vars:
  "tcheckVars exIfElseIfVar (newChecker []) = (OK, newChecker [])"
  by (simp add: tcheckVars.simps ex_if_defs setErrFilenameLine_def Let_def)

lemma exIfVar_vars:
  "fst (tcheckVars exIfVar (newChecker [])) = OK"
  "LocalVars (snd (tcheckVars exIfVar (newChecker []))) = Some [exIdX \<mapsto> Some exTypeBool]"
  "TypeChecked exTypeBool (snd (tcheckVars exIfVar (newChecker [])))"
  by (simp_all add: tcheckVars.simps tcheckTypeExpr.simps ex_if_defs setErrFilenameLine_def
      Let_def MaxTypeExprDepth_def ID_IsNumType_def SetTypeChecked_def TypeChecked_def
      FlagsTypeChecked_def)

lemma Eq_Bool: "Eq (Some TypeExprBool) (Some TypeExprBool)"
  by (simp add: Eq_def TypeExprBool_def)

lemma exIfElseIfVar_statement:
  "fst (tcheckStatement exIfElseIfVar (newChecker [])) = Err InternalUncheckedTypeExpr"
  by (simp add: tcheckStatement.simps tcheckExpr.simps tcheckExprOther.simps ex_if_defs
      setErrFilenameLine_def Let_def MaxExprDepth_def IsNumLiteral_def IsIdent_def
      MType_def SetMType_def SetConstValue_def SetTypeChecked_def TypeChecked_def Eq_Bool
      FlagsTypeChecked_def)

lemma exIfVar_statement:
  "fst (tcheckStatement exIfVar (snd (tcheckVars exIfVar (newChecker [])))) = OK"
  by (simp add: tcheckVars.simps tcheckTypeExpr.simps tcheckStatement.simps tcheckExpr.simps
      tcheckExprOther.simps ex_if_defs setErrFilenameLine_def Let_def MaxExprDepth_def
      MaxTypeExprDepth_def ID_IsNumType_def IsNumLiteral_def IsIdent_def
      MType_def SetMType_def SetConstValue_def SetTypeChecked_def TypeChecked_def Eq_Bool
      FlagsTypeChecked_def)

text \<open>
  C7 (the code at the failing input).  The pre-pass \<open>tcheckVars\<close> descends into
  \<open>list0\<close> and \<open>list1\<close> only, and an else-if clause hangs off \<open>rhs\<close>: on
  \<open>if true { } else if true { var x bool }\<close> it succeeds without registering \<open>x\<close> and
  without checking its type, and \<open>tcheckStatement\<close> then stops at the \<open>var\<close> with its
  internal error.  The same \<open>var\<close> in the body of a plain \<open>if\<close> is registered, and
  the statement checks.
\<close>

theorem C7_else_if_vars_not_collected:
  "fst (tcheckVars exIfElseIfVar (newChecker [])) = OK
   \<and> LocalVars (snd (tcheckVars exIfElseIfVar (newChecker []))) = Some Map.empty
   \<and> \<not> TypeChecked exTypeBool (snd (tcheckVars exIfElseIfVar (newChecker [])))
   \<and> fst (tcheckStatement exIfElseIfVar (snd (tcheckVars exIfElseIfVar (newChecker [])))) =
       Err InternalUncheckedTypeExpr
   \<and> fst (tcheckVars exIfVar (newChecker [])) = OK
   \<and> LocalVars (snd (tcheckVars exIfVar (newChecker []))) = Some [exIdX \<mapsto> Some exTypeBool]
   \<and> fst (tcheckStatement exIfVar (snd (tcheckVars exIfVar (newChecker [])))) = OK"
proof -
  have a: "LocalVars (newChecker []) = Some Map.empty"
          "\<not> TypeChecked exTypeBool (newChecker [])"
    by (simp_all add: newChecker_def TypeChecked_def annot0_def)
  show ?thesis
    using a exIfElseIfVar_statement exIfVar_vars(1,2) exIfVar_statement
    by (simp add: exIfElseIfVar_vars)
qed

end
